theory Spec2Isabelle
  imports Main
begin

section \<open>Python strings and lists\<close>

text \<open>
  A Python \<open>str\<close> is modelled as a \<^typ>\<open>string\<close>: the list of the bytes of its UTF-8
  encoding. Substring search, splitting at an ASCII character and stripping ASCII characters
  give the same answers on the encoded bytes as on the code points.
\<close>

text \<open>\<open>s.rstrip(chars)\<close>: drops every trailing character that occurs in \<open>chars\<close>.\<close>

definition rstrip :: "string \<Rightarrow> string \<Rightarrow> string" where
  "rstrip chars s = rev (dropWhile (\<lambda>c. c \<in> set chars) (rev s))"

text \<open>
  \<open>s.split(sep)\<close> for a separator of one character: the pieces between the occurrences
  of the separator, empty pieces kept. The result is never empty, so the last branch of the
  \<open>case\<close> is never taken.
\<close>

fun split_sep :: "char \<Rightarrow> string \<Rightarrow> string list" where
  "split_sep c [] = [[]]"
| "split_sep c (x # xs) =
     (if x = c then [] # split_sep c xs
      else (case split_sep c xs of
              p # ps \<Rightarrow> (x # p) # ps
            | [] \<Rightarrow> [[x]]))"

text \<open>
  \<open>xs[i]\<close> for a list: a negative index counts from the end; \<open>None\<close> stands for
  Python's \<open>IndexError\<close>.
\<close>

definition py_getitem :: "'a list \<Rightarrow> int \<Rightarrow> 'a option" where
  "py_getitem xs i =
     (if 0 \<le> i \<and> i < int (length xs) then Some (xs ! nat i)
      else if i < 0 \<and> - i \<le> int (length xs) then Some (xs ! nat (int (length xs) + i))
      else None)"

text \<open>\<open>sep.join(xs)\<close> for a list of strings.\<close>

fun join :: "string \<Rightarrow> string list \<Rightarrow> string" where
  "join sep [] = []"
| "join sep [x] = x"
| "join sep (x # y # ys) = x @ sep @ join sep (y # ys)"

text \<open>\<open>needle in haystack\<close> for two strings: the needle occurs as a contiguous part.\<close>

fun starts_with :: "string \<Rightarrow> string \<Rightarrow> bool" where
  "starts_with [] s = True"
| "starts_with (n # ns) [] = False"
| "starts_with (n # ns) (c # cs) = (n = c \<and> starts_with ns cs)"

fun contains :: "string \<Rightarrow> string \<Rightarrow> bool" where
  "contains needle [] = (needle = [])"
| "contains needle (c # cs) = (starts_with needle (c # cs) \<or> contains needle cs)"

text \<open>\<open>str(n)\<close> for an integer: its decimal digits, with a minus sign when negative.\<close>

definition digit_char :: "nat \<Rightarrow> char" where
  "digit_char d = ''0123456789'' ! d"

fun str_nat :: "nat \<Rightarrow> string" where
  "str_nat n = (if n < 10 then [digit_char n] else str_nat (n div 10) @ [digit_char (n mod 10)])"

definition str_int :: "int \<Rightarrow> string" where
  "str_int i = (if i < 0 then CHR ''-'' # str_nat (nat (- i)) else str_nat (nat i))"

section \<open>Parsing the repository URL\<close>

text \<open>
  \<open>parse_github_url\<close> (lines 30 to 40). The pair \<open>(None, None)\<close> is the failure value,
  returned when the stripped URL has fewer than two pieces and by the \<open>except\<close> branch,
  which would catch an \<open>IndexError\<close> of the two index reads.
\<close>

definition parse_github_url :: "string \<Rightarrow> string option \<times> string option" where
  "parse_github_url url =
     (let parts = split_sep CHR ''/'' (rstrip ''/'' url) in
      if length parts < 2 then (None, None)
      else (case (py_getitem parts (- 2), py_getitem parts (- 1)) of
              (Some owner, Some repo) \<Rightarrow> (Some owner, Some repo)
            | _ \<Rightarrow> (None, None)))"

text \<open>
  Python truthiness of an optional string, as in \<open>if token:\<close> and \<open>not owner\<close>:
  \<open>None\<close> and the empty string are false.
\<close>

definition truthy :: "string option \<Rightarrow> bool" where
  "truthy v = (case v of None \<Rightarrow> False | Some s \<Rightarrow> s \<noteq> [])"

text \<open>
  The caller's guard (lines 223 to 227): the analysis goes on only when
  \<open>not owner or not repo\<close> is false; otherwise the page shows
  \<open>Invalid GitHub URL format.\<close> and nothing is fetched.
\<close>

definition url_accepted :: "string \<Rightarrow> bool" where
  "url_accepted url =
     (case parse_github_url url of (owner, repo) \<Rightarrow> \<not> (\<not> truthy owner \<or> \<not> truthy repo))"

section \<open>JSON values, HTTP responses and the libraries\<close>

text \<open>
  A parsed JSON value, as \<open>response.json()\<close> returns it. An object is the list of its
  keys and values, each key once, in the order of the dictionary; a number that is not an integer keeps its literal, since the program
  never computes with it.
\<close>

datatype json =
    JNull
  | JBool bool
  | JInt int
  | JFloat string
  | JStr string
  | JArr "json list"
  | JObj "(string \<times> json) list"

text \<open>The exceptions that leave the functions modelled here.\<close>

datatype py_error = JSONDecodeError | AttributeError | KeyError | TypeError

text \<open>
  What the program reads of a \<open>requests\<close> response: the status code and the parsed body.
  \<open>json_body = None\<close> is a body that is not JSON: \<open>response.json()\<close> raises
  \<open>JSONDecodeError\<close> on it.
\<close>

record response =
  status_code :: int
  json_body :: "json option"

type_synonym headers = "(string \<times> string) list"

type_synonym request = "string \<times> headers"

text \<open>
  The program's surroundings are parameters of the model:
  \<^item> \<open>requests_get url headers\<close> is the response of the provider to \<open>requests.get\<close>;
    a request that the transport cannot deliver, where \<open>requests.get\<close> itself raises, is
    outside the model;
  \<^item> \<open>b64decode s\<close> is \<open>base64.b64decode(s)\<close> on a string, \<open>None\<close> when it raises;
  \<^item> \<open>utf8_valid bs\<close> tells whether \<open>bs.decode('utf-8')\<close> succeeds; the decoded text is
    then \<open>bs\<close> itself, a string being modelled by its UTF-8 bytes;
  \<^item> \<open>py_repr v\<close> is \<open>str(v)\<close> for a JSON value that is not a string.
\<close>

record library =
  requests_get :: "string \<Rightarrow> headers \<Rightarrow> response"
  b64decode :: "string \<Rightarrow> string option"
  utf8_valid :: "string \<Rightarrow> bool"
  py_repr :: "json \<Rightarrow> string"

text \<open>How an f-string renders a JSON value: a string as it is, anything else by \<open>str\<close>.\<close>

definition py_str :: "library \<Rightarrow> json \<Rightarrow> string" where
  "py_str L v = (case v of JStr s \<Rightarrow> s | _ \<Rightarrow> py_repr L v)"

text \<open>\<open>d.get(key, default)\<close> on a dictionary.\<close>

definition dict_get :: "('k \<times> 'v) list \<Rightarrow> 'k \<Rightarrow> 'v \<Rightarrow> 'v" where
  "dict_get d k dflt = (case map_of d k of Some v \<Rightarrow> v | None \<Rightarrow> dflt)"

text \<open>\<open>d[key] = value\<close> on a dictionary: a new key goes last, a known key keeps its place.\<close>

fun dict_set :: "('k \<times> 'v) list \<Rightarrow> 'k \<Rightarrow> 'v \<Rightarrow> ('k \<times> 'v) list" where
  "dict_set [] k v = [(k, v)]"
| "dict_set ((k', v') # d) k v =
     (if k' = k then (k, v) # d else (k', v') # dict_set d k v)"

text \<open>\<open>response.json()\<close>.\<close>

definition json_of :: "response \<Rightarrow> py_error + json" where
  "json_of r = (case json_body r of None \<Rightarrow> Inl JSONDecodeError | Some v \<Rightarrow> Inr v)"

text \<open>
  \<open>v.get(key, default)\<close> on a parsed body: only a dictionary has the method \<open>get\<close>, every
  other value raises \<open>AttributeError\<close>.
\<close>

definition get_attr :: "json \<Rightarrow> string \<Rightarrow> json \<Rightarrow> py_error + json" where
  "get_attr v k dflt =
     (case v of JObj d \<Rightarrow> Inr (dict_get d k dflt) | _ \<Rightarrow> Inl AttributeError)"

text \<open>
  A computation that may raise and that records the HTTP requests it issues, in order.
  \<open>io_bind\<close> runs the second computation only when the first did not raise.
\<close>

type_synonym 'a io = "(py_error + 'a) \<times> request list"

definition io_return :: "'a \<Rightarrow> 'a io" where
  "io_return v = (Inr v, [])"

definition io_lift :: "py_error + 'a \<Rightarrow> 'a io" where
  "io_lift r = (r, [])"

definition io_bind :: "'a io \<Rightarrow> ('a \<Rightarrow> 'b io) \<Rightarrow> 'b io" where
  "io_bind m f =
     (case m of
        (Inl e, reqs) \<Rightarrow> (Inl e, reqs)
      | (Inr v, reqs) \<Rightarrow> (case f v of (r, reqs') \<Rightarrow> (r, reqs @ reqs')))"

definition http_get :: "library \<Rightarrow> string \<Rightarrow> headers \<Rightarrow> response io" where
  "http_get L url hdrs = (Inr (requests_get L url hdrs), [(url, hdrs)])"

section \<open>The GitHub resource fetcher\<close>

text \<open>Lines 44 to 46 and 62 to 64: the header is sent only when \<open>token\<close> is truthy.\<close>

definition auth_headers :: "string option \<Rightarrow> headers" where
  "auth_headers token =
     (case token of
        Some t \<Rightarrow> (if truthy token then [(''Authorization'', ''token '' @ t)] else [])
      | None \<Rightarrow> [])"

definition repo_url :: "string \<Rightarrow> string \<Rightarrow> string" where
  "repo_url owner repo = ''https://api.github.com/repos/'' @ owner @ ''/'' @ repo"

definition contents_url :: "string \<Rightarrow> string \<Rightarrow> string \<Rightarrow> string" where
  "contents_url owner repo file_path =
     ''https://api.github.com/repos/'' @ owner @ ''/'' @ repo @ ''/contents/'' @ file_path"

definition tree_url :: "string \<Rightarrow> string \<Rightarrow> string \<Rightarrow> string" where
  "tree_url owner repo default_branch =
     ''https://api.github.com/repos/'' @ owner @ ''/'' @ repo @ ''/git/trees/''
       @ default_branch @ ''?recursive=1''"

text \<open>
  Line 54, \<open>base64.b64decode(content_b64).decode('utf-8')\<close>; \<open>None\<close> when either step
  raises. A payload that is not a string makes \<open>b64decode\<close> raise \<open>TypeError\<close>.
\<close>

definition decode_content :: "library \<Rightarrow> json \<Rightarrow> string option" where
  "decode_content L content_b64 =
     (case content_b64 of
        JStr s \<Rightarrow>
          (case b64decode L s of
             Some bs \<Rightarrow> (if utf8_valid L bs then Some bs else None)
           | None \<Rightarrow> None)
      | _ \<Rightarrow> None)"

text \<open>
  \<open>fetch_file_content\<close> (lines 42 to 57). The body is read and \<open>get\<close> is called before the
  \<open>try\<close>; the bare \<open>except\<close> covers the decoding only.
\<close>

definition fetch_file_content ::
  "library \<Rightarrow> string \<Rightarrow> string \<Rightarrow> string \<Rightarrow> string option \<Rightarrow> string io" where
  "fetch_file_content L owner repo file_path token =
     io_bind (http_get L (contents_url owner repo file_path) (auth_headers token))
       (\<lambda>response.
          if status_code response = 200 then
            io_bind (io_lift (json_of response)) (\<lambda>body.
            io_bind (io_lift (get_attr body ''content'' (JStr ''''))) (\<lambda>content_b64.
              (case decode_content L content_b64 of
                 Some decoded \<Rightarrow> io_return decoded
               | None \<Rightarrow> io_return (''Error decoding '' @ file_path @ '' content.''))))
          else io_return (''File '' @ file_path @ '' not found or inaccessible.''))"

section \<open>The repository context builder\<close>

text \<open>The dictionary that \<open>get_repo_structure\<close> returns on success (lines 104 to 109).\<close>

record snapshot =
  metadata :: json
  "structure" :: string
  readme :: string
  dependencies :: "(string \<times> string) list"

text \<open>
  \<open>item['path']\<close> (line 84): a dictionary without the key raises \<open>KeyError\<close>, a value that
  is not a dictionary cannot be indexed by a string.
\<close>

definition item_path :: "json \<Rightarrow> py_error + json" where
  "item_path item =
     (case item of
        JObj d \<Rightarrow> (case map_of d ''path'' of Some v \<Rightarrow> Inr v | None \<Rightarrow> Inl KeyError)
      | _ \<Rightarrow> Inl TypeError)"

text \<open>A list comprehension: the elements in order, stopping at the first that raises.\<close>

fun collect :: "('a \<Rightarrow> py_error + 'b) \<Rightarrow> 'a list \<Rightarrow> py_error + 'b list" where
  "collect f [] = Inr []"
| "collect f (x # xs) =
     (case f x of
        Inl e \<Rightarrow> Inl e
      | Inr y \<Rightarrow> (case collect f xs of Inl e \<Rightarrow> Inl e | Inr ys \<Rightarrow> Inr (y # ys)))"

text \<open>
  Line 84, \<open>[item['path'] for item in tree[:100]]\<close>. A list is cut to its first hundred
  entries and only those are read. The items of a string are strings, which have no key, so
  only the empty string gives a result; no other value can be sliced.
\<close>

definition tree_paths :: "json \<Rightarrow> py_error + json list" where
  "tree_paths tree =
     (case tree of
        JArr items \<Rightarrow> collect item_path (take 100 items)
      | JStr s \<Rightarrow> (if s = [] then Inr [] else Inl TypeError)
      | _ \<Rightarrow> Inl TypeError)"

text \<open>Line 85: \<open>join\<close> raises \<open>TypeError\<close> on an item that is not a string.\<close>

definition as_str :: "json \<Rightarrow> py_error + string" where
  "as_str v = (case v of JStr s \<Rightarrow> Inr s | _ \<Rightarrow> Inl TypeError)"

text \<open>Lines 83 and 84: the list \<open>files\<close> of a tree response with status 200.\<close>

definition tree_files :: "response \<Rightarrow> py_error + json list" where
  "tree_files tree_response =
     (case json_of tree_response of
        Inl e \<Rightarrow> Inl e
      | Inr tree_data \<Rightarrow>
          (case get_attr tree_data ''tree'' (JArr []) of
             Inl e \<Rightarrow> Inl e
           | Inr tree \<Rightarrow> tree_paths tree))"

text \<open>Lines 81 to 85: the text \<open>file_structure\<close>, empty unless the status is 200.\<close>

definition file_structure :: "response \<Rightarrow> py_error + string" where
  "file_structure tree_response =
     (if status_code tree_response = 200 then
        (case tree_files tree_response of
           Inl e \<Rightarrow> Inl e
         | Inr files \<Rightarrow>
             (case collect as_str files of
                Inl e \<Rightarrow> Inl e
              | Inr names \<Rightarrow> Inr (join [CHR 0x0A] names)))
      else Inr [])"

definition dep_files :: "string list" where
  "dep_files = [''requirements.txt'', ''package.json'', ''Pipfile'', ''pyproject.toml'',
     ''package-lock.json'', ''Pipfile.lock'', ''yarn.lock'']"

text \<open>Lines 96 to 99: the loop over the manifest names, \<open>deps\<close> being the dictionary so far.\<close>

fun fetch_dependencies ::
  "library \<Rightarrow> string \<Rightarrow> string \<Rightarrow> string option \<Rightarrow> string list \<Rightarrow> (string \<times> string) list
     \<Rightarrow> (string \<times> string) list io" where
  "fetch_dependencies L owner repo token [] deps = io_return deps"
| "fetch_dependencies L owner repo token (file_name # rest) deps =
     io_bind (fetch_file_content L owner repo file_name token) (\<lambda>content.
       fetch_dependencies L owner repo token rest
         (if \<not> contains ''not found'' content \<and> \<not> contains ''inaccessible'' content
          then dict_set deps file_name content else deps))"

definition no_dependency_message :: string where
  "no_dependency_message =
     ''No primary dependency file (e.g., requirements.txt, package.json) or lock file found.''"

text \<open>
  \<open>get_repo_structure\<close> (lines 60 to 109). The result is the pair the function returns,
  \<open>(snapshot, None)\<close> or \<open>(None, message)\<close>; \<open>Inl\<close> is an exception that leaves it.
\<close>

definition get_repo_structure ::
  "library \<Rightarrow> string \<Rightarrow> string \<Rightarrow> string option \<Rightarrow> (snapshot option \<times> string option) io" where
  "get_repo_structure L owner repo token =
     io_bind (http_get L (repo_url owner repo) (auth_headers token)) (\<lambda>response.
       if status_code response \<noteq> 200 then
         io_bind (io_lift (json_of response)) (\<lambda>body.
         io_bind (io_lift (get_attr body ''message'' (JStr ''Unknown error''))) (\<lambda>error_message.
           io_return (None,
             Some (''Error: Could not fetch repo. Status Code: '' @ str_int (status_code response)
                   @ ''. Message: '' @ py_str L error_message))))
       else
         io_bind (io_lift (json_of response)) (\<lambda>repo_data.
         io_bind (io_lift (get_attr repo_data ''default_branch'' (JStr ''main''))) (\<lambda>default_branch.
         io_bind (http_get L (tree_url owner repo (py_str L default_branch)) (auth_headers token))
           (\<lambda>tree_response.
         io_bind (io_lift (file_structure tree_response)) (\<lambda>file_structure.
         io_bind (fetch_file_content L owner repo ''README.md'' token) (\<lambda>readme_content.
         io_bind (fetch_dependencies L owner repo token dep_files []) (\<lambda>dependency_content.
           io_return
             (Some \<lparr>metadata = repo_data,
                    structure = file_structure,
                    readme = (if contains ''not found'' readme_content
                                 \<or> contains ''inaccessible'' readme_content
                              then ''No README.md found.'' else readme_content),
                    dependencies = (if dependency_content = []
                                    then dict_set dependency_content ''status'' no_dependency_message
                                    else dependency_content)\<rparr>,
              None))))))))"

section \<open>The prompt assembler and model invoker\<close>

text \<open>
  The generative-model library, as \<open>analyze_with_gemini\<close> uses it. A call that raises an
  \<open>Exception\<close> is a value carrying the exception's text \<open>str(e)\<close>:
  \<^item> \<open>genai_configure api_key\<close> is \<open>genai.configure(api_key=api_key)\<close>, \<open>Some e\<close> when
    it raises;
  \<^item> \<open>genai_model model_name\<close> is \<open>genai.GenerativeModel(model_name)\<close>, \<open>Some e\<close>
    when it raises;
  \<^item> \<open>genai_generate api_key model_name prompt\<close> is
    \<open>model.generate_content(prompt).text\<close> for the model configured so, \<open>Inl e\<close> when
    the call or the read of \<open>text\<close> raises.
\<close>

record genai =
  genai_configure :: "string \<Rightarrow> string option"
  genai_model :: "string \<Rightarrow> string option"
  genai_generate :: "string \<Rightarrow> string \<Rightarrow> string \<Rightarrow> string + string"

text \<open>Line 121: one block of the dependency summary.\<close>

definition dep_block :: "string \<times> string \<Rightarrow> string" where
  "dep_block item = (case item of (name, content) \<Rightarrow>
     ''--- '' @ name @ '' ---'' @ [CHR 0x0A] @ content)"

text \<open>Lines 120 to 122: the blocks in the order of the dictionary, joined by an empty line.\<close>

definition dep_summary :: "(string \<times> string) list \<Rightarrow> string" where
  "dep_summary deps = join [CHR 0x0A, CHR 0x0A] (map dep_block deps)"

text \<open>
  The literal text of the f-string of lines 125 to 162, cut at its four fields. Every line
  of it keeps the four spaces of indentation it has in the source.
\<close>

definition prompt_intro :: string where
  "prompt_intro =
     [CHR 0x0A] @
     ''    You are a strict Senior Developer Mentor acting as an AI engine for '' @ [CHR 0x22] @ ''GitGrade'' @ [CHR 0x22] @ ''.'' @ [CHR 0x0A] @
     ''    Your task is to evaluate a GitHub repository based on the following inputs:'' @ [CHR 0x0A] @
     ''    '' @ [CHR 0x0A] @
     ''    1. **Repository Metadata**: ''"

definition prompt_structure_label :: string where
  "prompt_structure_label =
     [CHR 0x0A] @
     ''    2. **File Structure**: '' @ [CHR 0x0A] @
     ''    ''"

definition prompt_readme_label :: string where
  "prompt_readme_label =
     [CHR 0x0A] @
     ''    3. **README Content**: '' @ [CHR 0x0A] @
     ''    ''"

definition prompt_dependency_label :: string where
  "prompt_dependency_label =
     [CHR 0x0A] @
     ''    4. **Dependency Files Content**:'' @ [CHR 0x0A] @
     ''    ''"

definition prompt_rubric :: string where
  "prompt_rubric =
     [CHR 0x0A] @
     [CHR 0x0A] @
     ''    **Evaluation Criteria:**'' @ [CHR 0x0A] @
     ''    - **Code Quality & Organization:** Look for clean folder structures (src, tests, docs), separation of concerns.'' @ [CHR 0x0A] @
     ''    - **Documentation:** Is the README clear? Does it have setup instructions?'' @ [CHR 0x0A] @
     ''    - **Best Practices:** Presence of .gitignore, LICENSE, CI/CD workflows, test folders.'' @ [CHR 0x0A] @
     ''    - **Dependency Health (CRITICAL):** Analyze the provided dependency content (or lack thereof) for:'' @ [CHR 0x0A] @
     ''        a) **Security Risk:** Are common packages severely outdated? (Infer potential CVEs if versions are very old).'' @ [CHR 0x0A] @
     ''        b) **Maintainability:** Is a lock file (e.g., package-lock.json, Pipfile.lock) present? (Crucial for reproducible builds).'' @ [CHR 0x0A] @
     ''        c) **Clarity:** Are dependencies specified without version pinning? (Bad practice).'' @ [CHR 0x0A] @
     [CHR 0x0A] @
     ''    **Output Requirement:**'' @ [CHR 0x0A] @
     ''    Provide the response in the following specific format:'' @ [CHR 0x0A] @
     [CHR 0x0A] @
     ''    ### SCORE'' @ [CHR 0x0A] @
     ''    [Provide a score out of 100 based on the quality. Be honest and critical.]'' @ [CHR 0x0A] @
     [CHR 0x0A] @
     ''    ### CRITICAL INSIGHTS'' @ [CHR 0x0A] @
     ''    [A 2-3 sentence section dedicated ONLY to Dependency Health and Security Risk. Be direct.]'' @ [CHR 0x0A] @
     [CHR 0x0A] @
     ''    ### SUMMARY'' @ [CHR 0x0A] @
     ''    [A short paragraph (approx 50 words) evaluating the strengths and weaknesses of the overall project, including the Dependency Health findings.]'' @ [CHR 0x0A] @
     [CHR 0x0A] @
     ''    ### ROADMAP'' @ [CHR 0x0A] @
     ''    [Bulleted list of 3-5 actionable steps the student must take to improve this project. Include at least two specific actions related to Dependency Health (e.g., pinning versions, adding a lock file, or updating a specific package).]'' @ [CHR 0x0A] @
     ''    '' @ [CHR 0x0A] @
     ''    Do not be polite just for the sake of it. Give honest, constructive feedback.'' @ [CHR 0x0A] @
     ''    ''"

text \<open>Lines 125 to 162: the prompt.\<close>

definition build_prompt :: "library \<Rightarrow> snapshot \<Rightarrow> string" where
  "build_prompt L repo_data =
     prompt_intro @ py_str L (metadata repo_data)
       @ prompt_structure_label @ structure repo_data
       @ prompt_readme_label @ readme repo_data
       @ prompt_dependency_label @ dep_summary (dependencies repo_data)
       @ prompt_rubric"

text \<open>
  \<open>analyze_with_gemini\<close> (lines 111 to 168). The first \<open>try\<close> covers the configuration and
  the creation of the model, the second the generation; each \<open>except Exception\<close> returns a
  text that ends with the exception's.
\<close>

definition analyze_with_gemini :: "library \<Rightarrow> genai \<Rightarrow> snapshot \<Rightarrow> string \<Rightarrow> string \<Rightarrow> string" where
  "analyze_with_gemini L G repo_data api_key model_name =
     (case genai_configure G api_key of
        Some e \<Rightarrow> ''Error configuring Gemini API or loading model: '' @ e
      | None \<Rightarrow>
          (case genai_model G model_name of
             Some e \<Rightarrow> ''Error configuring Gemini API or loading model: '' @ e
           | None \<Rightarrow>
               (case genai_generate G api_key model_name (build_prompt L repo_data) of
                  Inl e \<Rightarrow> ''Error generating content: '' @ e
                | Inr generated \<Rightarrow> generated)))"

section \<open>A provider and a model to evaluate on\<close>

text \<open>
  A concrete provider, used to evaluate the functions at explicit inputs. Every address it
  does not list answers 404 with the body \<open>{"message": "Not Found"}\<close>, as GitHub does.
\<close>

definition not_found :: response where
  "not_found = \<lparr>status_code = 404, json_body = Some (JObj [(''message'', JStr ''Not Found'')])\<rparr>"

definition ok_json :: "json \<Rightarrow> response" where
  "ok_json v = \<lparr>status_code = 200, json_body = Some v\<rparr>"

text \<open>The answer of the contents endpoint for a file: its text in base64.\<close>

definition file_json :: "string \<Rightarrow> response" where
  "file_json b64 = ok_json (JObj [(''name'', JStr ''file''), (''content'', JStr b64)])"

text \<open>
  The repositories of \<open>octocat\<close>:
  \<^item> \<open>Hello-World\<close> has the branch \<open>master\<close>, a README and a \<open>package.json\<close>;
  \<^item> \<open>bare\<close> has metadata without a default branch and nothing else;
  \<^item> \<open>outage\<close> answers 503 with a body that is not JSON;
  \<^item> \<open>flaky\<close> answers the tree request 200 with a body that is not JSON;
  \<^item> \<open>folder\<close> has a directory named \<open>docs\<close>: the contents endpoint answers 200
    with a JSON array for a directory;
  \<^item> \<open>garbled\<close> has a \<open>requirements.txt\<close> whose payload \<open>/w==\<close> is the byte \<open>0xFF\<close>,
    which is not UTF-8;
  \<^item> \<open>mislabeled\<close> has a README whose text is \<open>not found\<close> and a \<open>requirements.txt\<close>
    whose text is \<open>inaccessible\<close>;
  \<^item> \<open>nested\<close> has a directory named \<open>package.json\<close>;
  \<^item> \<open>undocumented\<close> has the file \<open>app.py\<close> on the branch \<open>main\<close> and no README.
\<close>

definition github_pages :: "(string \<times> response) list" where
  "github_pages =
    [(repo_url ''octocat'' ''Hello-World'',
        ok_json (JObj [(''default_branch'', JStr ''master''), (''stargazers_count'', JInt 80)])),
     (tree_url ''octocat'' ''Hello-World'' ''master'',
        ok_json (JObj [(''tree'', JArr [JObj [(''path'', JStr ''README.md'')],
                                         JObj [(''path'', JStr ''package.json'')]])])),
     (contents_url ''octocat'' ''Hello-World'' ''README.md'', file_json ''aGk=''),
     (contents_url ''octocat'' ''Hello-World'' ''package.json'', file_json ''e30=''),
     (repo_url ''octocat'' ''bare'', ok_json (JObj [])),
     (repo_url ''octocat'' ''outage'', \<lparr>status_code = 503, json_body = None\<rparr>),
     (repo_url ''octocat'' ''flaky'', ok_json (JObj [])),
     (tree_url ''octocat'' ''flaky'' ''main'', \<lparr>status_code = 200, json_body = None\<rparr>),
     (repo_url ''octocat'' ''folder'', ok_json (JObj [])),
     (contents_url ''octocat'' ''folder'' ''docs'', ok_json (JArr [])),
     (repo_url ''octocat'' ''garbled'', ok_json (JObj [])),
     (contents_url ''octocat'' ''garbled'' ''requirements.txt'', file_json ''/w==''),
     (repo_url ''octocat'' ''mislabeled'', ok_json (JObj [])),
     (contents_url ''octocat'' ''mislabeled'' ''README.md'', file_json ''bm90IGZvdW5k''),
     (contents_url ''octocat'' ''mislabeled'' ''requirements.txt'', file_json ''aW5hY2Nlc3NpYmxl''),
     (repo_url ''octocat'' ''nested'', ok_json (JObj [])),
     (contents_url ''octocat'' ''nested'' ''package.json'', ok_json (JArr [])),
     (repo_url ''octocat'' ''undocumented'', ok_json (JObj [])),
     (tree_url ''octocat'' ''undocumented'' ''main'',
        ok_json (JObj [(''tree'', JArr [JObj [(''path'', JStr ''app.py'')]])]))]"

text \<open>
  The base64 texts above and what \<open>base64.b64decode\<close> makes of them. The test for UTF-8
  is exact on these: the byte \<open>0xFF\<close> occurs in no UTF-8 text, and the others are ASCII.
\<close>

definition github :: library where
  "github =
    \<lparr>requests_get = (\<lambda>url hdrs. dict_get github_pages url not_found),
     b64decode = map_of [(''aGk='', ''hi''), (''e30='', ''{}''), (''/w=='', [CHR 0xFF]),
                         (''bm90IGZvdW5k'', ''not found''),
                         (''aW5hY2Nlc3NpYmxl'', ''inaccessible'')],
     utf8_valid = (\<lambda>bs. CHR 0xFF \<notin> set bs),
     py_repr = (\<lambda>v. ''{...}'')\<rparr>"


text \<open>
  A model library: one key is valid, one model exists, and it answers every prompt with the
  same text.
\<close>

definition gemini :: genai where
  "gemini =
    \<lparr>genai_configure = (\<lambda>api_key. None),
     genai_model = (\<lambda>model_name. if model_name = [] then Some ''empty model name'' else None),
     genai_generate = (\<lambda>api_key model_name prompt.
        if api_key \<noteq> ''good-key'' then Inl ''400 API key not valid''
        else if model_name \<noteq> ''models/gemini-2.5-flash'' then Inl ''404 model not found''
        else Inr (''### SCORE'' @ [CHR 0x0A] @ ''80...''))\<rparr>"

section \<open>Facts about the string functions\<close>

lemma split_sep_nonempty: "split_sep c s \<noteq> []"
  by (induction s) (auto split: list.splits)

lemma split_sep_append: "split_sep c (a @ c # b) = split_sep c a @ split_sep c b"
  by (induction a) (auto split: list.splits simp: split_sep_nonempty)

lemma split_sep_no_sep: "c \<notin> set s \<Longrightarrow> split_sep c s = [s]"
  by (induction s) auto

lemma length_split_sep: "length (split_sep c s) = Suc (length (filter (\<lambda>x. x = c) s))"
  by (induction s) (auto split: list.splits simp: split_sep_nonempty)

lemma split_sep_single: "length (split_sep c s) < 2 \<longleftrightarrow> c \<notin> set s"
  by (auto simp: length_split_sep filter_empty_conv)

lemma last_split_sep: "s \<noteq> [] \<Longrightarrow> last s \<noteq> c \<Longrightarrow> last (split_sep c s) \<noteq> []"
  by (induction s) (auto split: list.splits if_splits simp: split_sep_nonempty)

lemma dropWhile_replicate:
  "dropWhile (\<lambda>x. x = c) (replicate n c @ xs) = dropWhile (\<lambda>x. x = c) xs"
  by (induction n) auto

lemma rstrip_replicate: "rstrip [c] (s @ replicate n c) = rstrip [c] s"
  by (simp add: rstrip_def dropWhile_replicate)

lemma rstrip_id: "s = [] \<or> last s \<notin> set chars \<Longrightarrow> rstrip chars s = s"
  by (cases s rule: rev_cases) (auto simp: rstrip_def)

lemma rstrip_last: "rstrip chars s \<noteq> [] \<Longrightarrow> last (rstrip chars s) \<notin> set chars"
  unfolding rstrip_def
  by (metis (mono_tags, lifting) hd_dropWhile hd_rev rev_is_Nil_conv rev_rev_ident)

lemma py_getitem_last: "xs \<noteq> [] \<Longrightarrow> py_getitem xs (- 1) = Some (last xs)"
  by (cases xs rule: rev_cases) (auto simp: py_getitem_def nth_append)

lemma py_getitem_last2: "py_getitem (xs @ [a, b]) (- 2) = Some a"
  by (auto simp: py_getitem_def nth_append)

lemma py_getitem_second_last: "2 \<le> length xs \<Longrightarrow> \<exists>a. py_getitem xs (- 2) = Some a"
  by (auto simp: py_getitem_def)

text \<open>The substring test is Python's: the needle is a contiguous part of the text.\<close>

lemma starts_with_iff: "starts_with n s \<longleftrightarrow> (\<exists>suf. s = n @ suf)"
  by (induction n s rule: starts_with.induct) auto

lemma contains_iff: "contains n s \<longleftrightarrow> (\<exists>pre suf. s = pre @ n @ suf)"
proof (induction s)
  case Nil
  then show ?case by auto
next
  case (Cons c cs)
  show ?case
  proof
    assume "contains n (c # cs)"
    then consider "starts_with n (c # cs)" | "contains n cs" by auto
    then show "\<exists>pre suf. c # cs = pre @ n @ suf"
    proof cases
      case 1
      then obtain suf where "c # cs = n @ suf" by (auto simp: starts_with_iff)
      then have "c # cs = [] @ n @ suf" by simp
      then show ?thesis by blast
    next
      case 2
      with Cons obtain pre suf where "cs = pre @ n @ suf" by auto
      then have "c # cs = (c # pre) @ n @ suf" by simp
      then show ?thesis by blast
    qed
  next
    assume "\<exists>pre suf. c # cs = pre @ n @ suf"
    then obtain pre suf where eq: "c # cs = pre @ n @ suf" by auto
    show "contains n (c # cs)"
    proof (cases pre)
      case Nil
      with eq have "starts_with n (c # cs)" by (auto simp: starts_with_iff)
      then show ?thesis by simp
    next
      case (Cons p pre')
      with eq have "cs = pre' @ n @ suf" by simp
      with Cons.IH have "contains n cs" by blast
      then show ?thesis by simp
    qed
  qed
qed

lemma not_found_marker: "contains ''not found'' (''File '' @ p @ '' not found or inaccessible.'')"
proof -
  have "''File '' @ p @ '' not found or inaccessible.''
        = (''File '' @ p @ '' '') @ ''not found'' @ '' or inaccessible.''" by simp
  then show ?thesis unfolding contains_iff by blast
qed

section \<open>Facts about the fetcher and the builder\<close>

lemma fst_io_bind:
  "fst (io_bind m f) = (case fst m of Inl e \<Rightarrow> Inl e | Inr v \<Rightarrow> fst (f v))"
  by (simp add: io_bind_def split: prod.splits sum.splits)

lemma snd_io_bind:
  "snd (io_bind m f) = (case fst m of Inl e \<Rightarrow> snd m | Inr v \<Rightarrow> snd m @ snd (f v))"
  by (simp add: io_bind_def split: prod.splits sum.splits)

lemma fst_io_simps:
  "fst (io_return v) = Inr v" "fst (io_lift r) = r"
  "fst (http_get L u h) = Inr (requests_get L u h)"
  by (simp_all add: io_return_def io_lift_def http_get_def)

lemma snd_io_simps:
  "snd (io_return v) = []" "snd (io_lift r) = []" "snd (http_get L u h) = [(u, h)]"
  by (simp_all add: io_return_def io_lift_def http_get_def)

lemmas io_simps = fst_io_bind snd_io_bind fst_io_simps snd_io_simps

lemma io_bind_Inr: "m = (Inr v, q) \<Longrightarrow> io_bind m f = (fst (f v), q @ snd (f v))"
  by (simp add: io_bind_def split: prod.splits)

lemma io_bind_Inl: "m = (Inl e, q) \<Longrightarrow> io_bind m f = (Inl e, q)"
  by (simp add: io_bind_def)

lemma fetch_requests:
  "snd (fetch_file_content L owner repo p t) = [(contents_url owner repo p, auth_headers t)]"
  by (simp add: fetch_file_content_def io_simps split: sum.splits option.splits)

lemma fetch_not_200:
  "status_code (requests_get L (contents_url owner repo p) (auth_headers t)) \<noteq> 200 \<Longrightarrow>
   fst (fetch_file_content L owner repo p t) = Inr (''File '' @ p @ '' not found or inaccessible.'')"
  by (simp add: fetch_file_content_def io_simps)

lemma fetch_200:
  "status_code (requests_get L (contents_url owner repo p) (auth_headers t)) = 200 \<Longrightarrow>
   fst (fetch_file_content L owner repo p t) =
     (case json_body (requests_get L (contents_url owner repo p) (auth_headers t)) of
        None \<Rightarrow> Inl JSONDecodeError
      | Some (JObj d) \<Rightarrow>
          (case decode_content L (dict_get d ''content'' (JStr '''')) of
             Some decoded \<Rightarrow> Inr decoded
           | None \<Rightarrow> Inr (''Error decoding '' @ p @ '' content.''))
      | Some _ \<Rightarrow> Inl AttributeError)"
  by (simp add: fetch_file_content_def io_simps json_of_def get_attr_def
      split: sum.splits option.splits json.splits)

lemma fetch_cases:
  obtains (raises) e where
      "fetch_file_content L owner repo n t = (Inl e, [(contents_url owner repo n, auth_headers t)])"
  | (returns) c where
      "fetch_file_content L owner repo n t = (Inr c, [(contents_url owner repo n, auth_headers t)])"
  using fetch_requests[of L owner repo n t]
  by (cases "fetch_file_content L owner repo n t"; cases "fst (fetch_file_content L owner repo n t)")
    auto

lemma dict_set_fresh: "k \<notin> fst ` set d \<Longrightarrow> dict_set d k v = d @ [(k, v)]"
  by (induction d) auto

lemma loop_step:
  "fetch_file_content L owner repo n t = (Inr c, q) \<Longrightarrow>
   fetch_dependencies L owner repo t (n # names) deps =
     (fst (fetch_dependencies L owner repo t names
        (if \<not> contains ''not found'' c \<and> \<not> contains ''inaccessible'' c
         then dict_set deps n c else deps)),
      q @ snd (fetch_dependencies L owner repo t names
        (if \<not> contains ''not found'' c \<and> \<not> contains ''inaccessible'' c
         then dict_set deps n c else deps)))"
  unfolding fetch_dependencies.simps by (rule io_bind_Inr)

lemma loop_step_raise:
  "fetch_file_content L owner repo n t = (Inl e, q) \<Longrightarrow>
   fetch_dependencies L owner repo t (n # names) deps = (Inl e, q)"
  using io_bind_Inl[of "fetch_file_content L owner repo n t" e q] by simp

text \<open>A loop that ends has asked for every name, in order.\<close>

lemma loop_requests:
  "fst (fetch_dependencies L owner repo t names deps) = Inr d \<Longrightarrow>
   snd (fetch_dependencies L owner repo t names deps) =
     map (\<lambda>n. (contents_url owner repo n, auth_headers t)) names"
proof (induction names arbitrary: deps)
  case Nil
  then show ?case by (simp add: io_return_def)
next
  case (Cons n names)
  show ?case
  proof (cases rule: fetch_cases[of L owner repo n t])
    case (raises e)
    with Cons.prems show ?thesis by (simp only: loop_step_raise[OF raises]) simp
  next
    case (returns c)
    let ?deps = "if \<not> contains ''not found'' c \<and> \<not> contains ''inaccessible'' c
                 then dict_set deps n c else deps"
    from Cons.prems have "fst (fetch_dependencies L owner repo t names ?deps) = Inr d"
      by (simp only: loop_step[OF returns] fst_conv)
    from Cons.IH[OF this] show ?thesis
      by (simp only: loop_step[OF returns] snd_conv) simp
  qed
qed

text \<open>
  A loop that ends has fetched every name without an exception, and its dictionary is the
  one it started from followed by the names whose text does not look absent.
\<close>

lemma loop_result:
  "fst (fetch_dependencies L owner repo t names deps) = Inr d \<Longrightarrow> distinct names \<Longrightarrow>
   fst ` set deps \<inter> set names = {} \<Longrightarrow>
   d = deps @ concat (map (\<lambda>n.
         case fst (fetch_file_content L owner repo n t) of
           Inr c \<Rightarrow> (if \<not> contains ''not found'' c \<and> \<not> contains ''inaccessible'' c
                     then [(n, c)] else [])
         | Inl e \<Rightarrow> []) names) \<and>
   (\<forall>n \<in> set names. \<exists>c. fst (fetch_file_content L owner repo n t) = Inr c)"
proof (induction names arbitrary: deps)
  case Nil
  then show ?case by (simp add: io_return_def)
next
  case (Cons n names)
  show ?case
  proof (cases rule: fetch_cases[of L owner repo n t])
    case (raises e)
    with Cons.prems show ?thesis by (simp only: loop_step_raise[OF raises]) simp
  next
    case (returns c)
    let ?deps = "if \<not> contains ''not found'' c \<and> \<not> contains ''inaccessible'' c
                 then dict_set deps n c else deps"
    from Cons.prems have 1: "fst (fetch_dependencies L owner repo t names ?deps) = Inr d"
      by (simp only: loop_step[OF returns] fst_conv)
    from Cons.prems have fresh: "n \<notin> fst ` set deps" by auto
    then have ds: "dict_set deps n c = deps @ [(n, c)]" by (rule dict_set_fresh)
    from Cons.prems have 2: "distinct names" by simp
    from Cons.prems ds have 3: "fst ` set ?deps \<inter> set names = {}" by auto
    from Cons.IH[OF 1 2 3] returns ds show ?thesis
      by auto
  qed
qed

lemma loop_returns:
  "\<forall>n \<in> set names. \<exists>c. fst (fetch_file_content L owner repo n t) = Inr c \<Longrightarrow>
   \<exists>d. fst (fetch_dependencies L owner repo t names deps) = Inr d"
proof (induction names arbitrary: deps)
  case Nil
  then show ?case by (simp add: io_return_def)
next
  case (Cons n names)
  show ?case
  proof (cases rule: fetch_cases[of L owner repo n t])
    case (raises e)
    with Cons.prems show ?thesis by simp
  next
    case (returns c)
    let ?deps = "if \<not> contains ''not found'' c \<and> \<not> contains ''inaccessible'' c
                 then dict_set deps n c else deps"
    from Cons.prems
    have "\<forall>n \<in> set names. \<exists>c. fst (fetch_file_content L owner repo n t) = Inr c"
      by simp
    from Cons.IH[OF this, of ?deps] show ?thesis
      by (simp only: loop_step[OF returns] fst_conv)
  qed
qed

lemma grs_error_path:
  assumes "status_code (requests_get L (repo_url owner repo) (auth_headers t)) \<noteq> 200"
  shows "get_repo_structure L owner repo t =
    ((case json_body (requests_get L (repo_url owner repo) (auth_headers t)) of
        None \<Rightarrow> Inl JSONDecodeError
      | Some (JObj d) \<Rightarrow>
          Inr (None, Some (''Error: Could not fetch repo. Status Code: ''
                 @ str_int (status_code (requests_get L (repo_url owner repo) (auth_headers t)))
                 @ ''. Message: '' @ py_str L (dict_get d ''message'' (JStr ''Unknown error''))))
      | Some _ \<Rightarrow> Inl AttributeError),
     [(repo_url owner repo, auth_headers t)])"
  using assms
  by (simp add: get_repo_structure_def io_bind_def io_return_def io_lift_def http_get_def
      json_of_def get_attr_def split: option.splits json.splits)

text \<open>What a returned snapshot tells about the run that built it.\<close>

lemma grs_snapshot:
  assumes "fst (get_repo_structure L owner repo t) = Inr (Some snap, None)"
  shows "\<exists>kv rc d.
      status_code (requests_get L (repo_url owner repo) (auth_headers t)) = 200
    \<and> json_body (requests_get L (repo_url owner repo) (auth_headers t)) = Some (JObj kv)
    \<and> metadata snap = JObj kv
    \<and> file_structure (requests_get L
          (tree_url owner repo (py_str L (dict_get kv ''default_branch'' (JStr ''main''))))
          (auth_headers t)) = Inr (structure snap)
    \<and> fst (fetch_file_content L owner repo ''README.md'' t) = Inr rc
    \<and> readme snap = (if contains ''not found'' rc \<or> contains ''inaccessible'' rc
                      then ''No README.md found.'' else rc)
    \<and> fst (fetch_dependencies L owner repo t dep_files []) = Inr d
    \<and> dependencies snap = (if d = [] then [(''status'', no_dependency_message)] else d)
    \<and> snd (get_repo_structure L owner repo t) =
        [(repo_url owner repo, auth_headers t),
         (tree_url owner repo (py_str L (dict_get kv ''default_branch'' (JStr ''main''))),
          auth_headers t),
         (contents_url owner repo ''README.md'', auth_headers t)]
        @ map (\<lambda>n. (contents_url owner repo n, auth_headers t)) dep_files"
proof -
  let ?resp = "requests_get L (repo_url owner repo) (auth_headers t)"
  have ok: "status_code ?resp = 200"
  proof (rule ccontr)
    assume "status_code ?resp \<noteq> 200"
    from grs_error_path[OF this] assms show False
      by (simp split: option.splits json.splits)
  qed
  from assms ok obtain kv where kv: "json_body ?resp = Some (JObj kv)"
    by (auto simp: get_repo_structure_def io_simps json_of_def get_attr_def
        split: option.splits json.splits sum.splits)
  let ?tree = "requests_get L
      (tree_url owner repo (py_str L (dict_get kv ''default_branch'' (JStr ''main''))))
      (auth_headers t)"
  from assms ok kv obtain fs where fs: "file_structure ?tree = Inr fs"
    by (auto simp: get_repo_structure_def io_simps json_of_def get_attr_def
        split: sum.splits)
  from assms ok kv fs obtain rc
    where rc: "fst (fetch_file_content L owner repo ''README.md'' t) = Inr rc"
    by (auto simp: get_repo_structure_def io_simps json_of_def get_attr_def
        split: sum.splits)
  from assms ok kv fs rc obtain d
    where d: "fst (fetch_dependencies L owner repo t dep_files []) = Inr d"
    by (auto simp: get_repo_structure_def io_simps json_of_def get_attr_def
        split: sum.splits)
  from assms ok kv fs rc d have snap: "snap = \<lparr>metadata = JObj kv, structure = fs,
      readme = (if contains ''not found'' rc \<or> contains ''inaccessible'' rc
                then ''No README.md found.'' else rc),
      dependencies = (if d = [] then [(''status'', no_dependency_message)] else d)\<rparr>"
    by (auto simp add: get_repo_structure_def io_simps json_of_def get_attr_def)
  have reqs: "snd (get_repo_structure L owner repo t) =
        [(repo_url owner repo, auth_headers t),
         (tree_url owner repo (py_str L (dict_get kv ''default_branch'' (JStr ''main''))),
          auth_headers t),
         (contents_url owner repo ''README.md'', auth_headers t)]
        @ map (\<lambda>n. (contents_url owner repo n, auth_headers t)) dep_files"
    using ok kv fs rc d loop_requests[OF d] fetch_requests[of L owner repo "''README.md''" t]
    by (simp add: get_repo_structure_def io_simps json_of_def get_attr_def)
  from ok kv fs rc d snap reqs show ?thesis by simp
qed

text \<open>When no step raises after a metadata response with status 200, a snapshot is returned.\<close>

lemma grs_returns:
  assumes "status_code (requests_get L (repo_url owner repo) (auth_headers t)) = 200"
    and "json_body (requests_get L (repo_url owner repo) (auth_headers t)) = Some (JObj kv)"
    and "file_structure (requests_get L
          (tree_url owner repo (py_str L (dict_get kv ''default_branch'' (JStr ''main''))))
          (auth_headers t)) = Inr fs"
    and "fst (fetch_file_content L owner repo ''README.md'' t) = Inr rc"
    and "fst (fetch_dependencies L owner repo t dep_files []) = Inr d"
  shows "fst (get_repo_structure L owner repo t) =
     Inr (Some \<lparr>metadata = JObj kv, structure = fs,
            readme = (if contains ''not found'' rc \<or> contains ''inaccessible'' rc
                      then ''No README.md found.'' else rc),
            dependencies = (if d = [] then [(''status'', no_dependency_message)] else d)\<rparr>,
          None)"
  using assms
  by (simp add: get_repo_structure_def io_simps json_of_def get_attr_def)

text \<open>The other way round: a run that does not raise went through every step.\<close>

lemma grs_200_steps:
  assumes "status_code (requests_get L (repo_url owner repo) (auth_headers t)) = 200"
    and "fst (get_repo_structure L owner repo t) = Inr res"
  shows "\<exists>snap. res = (Some snap, None)"
  using assms
  by (auto simp: get_repo_structure_def io_simps split: sum.splits)

lemma dep_files_distinct: "distinct dep_files"
  by (simp add: dep_files_def)

lemma status_not_dep_file: "''status'' \<notin> set dep_files"
  by (simp add: dep_files_def)

text \<open>The entries of the dictionary that the loop of a returned snapshot has built.\<close>

lemma deps_membership:
  assumes "fst (get_repo_structure L owner repo t) = Inr (Some snap, None)"
  shows "\<exists>d. fst (fetch_dependencies L owner repo t dep_files []) = Inr d
    \<and> dependencies snap = (if d = [] then [(''status'', no_dependency_message)] else d)
    \<and> (\<forall>n c. (n, c) \<in> set d \<longleftrightarrow>
          n \<in> set dep_files \<and> fst (fetch_file_content L owner repo n t) = Inr c
          \<and> \<not> contains ''not found'' c \<and> \<not> contains ''inaccessible'' c)
    \<and> (\<forall>n \<in> set dep_files. \<exists>c. fst (fetch_file_content L owner repo n t) = Inr c)"
proof -
  from grs_snapshot[OF assms] obtain d
    where d: "fst (fetch_dependencies L owner repo t dep_files []) = Inr d"
      and deps: "dependencies snap = (if d = [] then [(''status'', no_dependency_message)] else d)"
    by blast
  from loop_result[OF d dep_files_distinct]
  have form: "d = concat (map (\<lambda>n.
         case fst (fetch_file_content L owner repo n t) of
           Inr c \<Rightarrow> (if \<not> contains ''not found'' c \<and> \<not> contains ''inaccessible'' c
                     then [(n, c)] else [])
         | Inl e \<Rightarrow> []) dep_files)"
    and all: "\<forall>n \<in> set dep_files. \<exists>c. fst (fetch_file_content L owner repo n t) = Inr c"
    by simp_all
  have "(n, c) \<in> set d \<longleftrightarrow>
          n \<in> set dep_files \<and> fst (fetch_file_content L owner repo n t) = Inr c
          \<and> \<not> contains ''not found'' c \<and> \<not> contains ''inaccessible'' c" for n c
    by (subst form) (auto split: sum.splits if_splits)
  with d deps all show ?thesis by blast
qed

text \<open>Unfolding the provider of the examples.\<close>

lemmas github_simps = github_def github_pages_def dict_get_def not_found_def ok_json_def
  file_json_def repo_url_def tree_url_def contents_url_def auth_headers_def truthy_def


text \<open>
  After a metadata answer with status 200 and a JSON object, the second request is the one
  for the tree of the default branch, whatever happens later.
\<close>

lemma grs_tree_request:
  assumes "status_code (requests_get L (repo_url owner repo) (auth_headers t)) = 200"
    and "json_body (requests_get L (repo_url owner repo) (auth_headers t)) = Some (JObj kv)"
  shows "\<exists>rest. snd (get_repo_structure L owner repo t) =
     (repo_url owner repo, auth_headers t)
     # (tree_url owner repo (py_str L (dict_get kv ''default_branch'' (JStr ''main''))),
        auth_headers t)
     # rest"
  using assms
  by (simp add: get_repo_structure_def io_simps json_of_def get_attr_def split: sum.splits)

text \<open>
  A fetch returns, rather than raises, exactly when the answer is not 200 or its body is a
  JSON object.
\<close>

lemma fetch_returns_iff:
  "(\<exists>c. fst (fetch_file_content L owner repo p t) = Inr c) \<longleftrightarrow>
     status_code (requests_get L (contents_url owner repo p) (auth_headers t)) \<noteq> 200
     \<or> (\<exists>d. json_body (requests_get L (contents_url owner repo p) (auth_headers t))
            = Some (JObj d))"
proof (cases "status_code (requests_get L (contents_url owner repo p) (auth_headers t)) = 200")
  case True
  then show ?thesis using fetch_200[of L owner repo p t]
    by (auto split: option.splits json.splits)
next
  case False
  then show ?thesis using fetch_not_200[of L owner repo p t] by simp
qed


section \<open>C1: when \<open>get_repo_structure\<close> returns an error\<close>

text \<open>
  Claim C1 does not hold as stated: the metadata request of \<open>octocat/outage\<close> is answered
  503 with a body that is not JSON, and \<open>get_repo_structure\<close> raises \<open>JSONDecodeError\<close>
  from \<open>response.json()\<close> instead of returning an error.
\<close>

theorem C1_counterexample:
  "status_code (requests_get github (repo_url ''octocat'' ''outage'') (auth_headers None)) = 503
   \<and> get_repo_structure github ''octocat'' ''outage'' None
       = (Inl JSONDecodeError, [(repo_url ''octocat'' ''outage'', [])])"
  by code_simp

text \<open>
  Claim C1, amended. \<open>get_repo_structure\<close> returns an error exactly when the metadata
  request is answered with a status other than 200 and a body that is a JSON object; the
  error text carries the status code and the \<open>message\<close> field of the body (\<open>Unknown error\<close>
  when it has none), and no further request is made. When the body of such an answer is not
  a JSON object the function raises. After a metadata answer of 200 with a JSON object,
  where the README answer and the seven manifest answers are each either not 200 or a JSON
  object: a tree answer with a status other than 200 still yields a snapshot, with the
  empty file structure, whatever the README answer is; and a README answer with a status
  other than 200 still yields a snapshot, with the placeholder as its README, whenever the
  file structure can be built from the tree answer. Whenever a snapshot is returned, the
  metadata status was 200, a tree answer with another status has given the empty file
  structure and a README answer with another status the placeholder.
\<close>

theorem C1_error_iff_metadata_fails:
  "(let hdrs = auth_headers token;
        resp = requests_get L (repo_url owner repo) hdrs;
        tree_resp = (\<lambda>kv. requests_get L
          (tree_url owner repo (py_str L (dict_get kv ''default_branch'' (JStr ''main'')))) hdrs);
        readme_resp = requests_get L (contents_url owner repo ''README.md'') hdrs;
        answered = (\<lambda>p. status_code (requests_get L (contents_url owner repo p) hdrs) \<noteq> 200
          \<or> (\<exists>d. json_body (requests_get L (contents_url owner repo p) hdrs) = Some (JObj d))) in
     ((\<exists>msg. fst (get_repo_structure L owner repo token) = Inr (None, Some msg))
        \<longleftrightarrow> status_code resp \<noteq> 200 \<and> (\<exists>d. json_body resp = Some (JObj d)))
   \<and> (\<forall>d. status_code resp \<noteq> 200 \<and> json_body resp = Some (JObj d) \<longrightarrow>
          get_repo_structure L owner repo token =
            (Inr (None, Some (''Error: Could not fetch repo. Status Code: ''
                     @ str_int (status_code resp) @ ''. Message: ''
                     @ py_str L (dict_get d ''message'' (JStr ''Unknown error'')))),
             [(repo_url owner repo, hdrs)]))
   \<and> (status_code resp \<noteq> 200 \<and> (\<forall>d. json_body resp \<noteq> Some (JObj d)) \<longrightarrow>
          (\<exists>e. get_repo_structure L owner repo token = (Inl e, [(repo_url owner repo, hdrs)])))
   \<and> (\<forall>snap. fst (get_repo_structure L owner repo token) = Inr (Some snap, None) \<longrightarrow>
          status_code resp = 200
          \<and> (\<exists>kv. json_body resp = Some (JObj kv)
                \<and> (status_code (tree_resp kv) \<noteq> 200 \<longrightarrow> structure snap = [])
                \<and> (status_code readme_resp \<noteq> 200 \<longrightarrow> readme snap = ''No README.md found.'')))
   \<and> (\<forall>kv. status_code resp = 200 \<and> json_body resp = Some (JObj kv)
          \<and> status_code (tree_resp kv) \<noteq> 200
          \<and> (\<forall>p \<in> set (''README.md'' # dep_files). answered p)
        \<longrightarrow> (\<exists>snap. fst (get_repo_structure L owner repo token) = Inr (Some snap, None)
               \<and> structure snap = []))
   \<and> (\<forall>kv fs. status_code resp = 200 \<and> json_body resp = Some (JObj kv)
          \<and> file_structure (tree_resp kv) = Inr fs
          \<and> status_code readme_resp \<noteq> 200
          \<and> (\<forall>n \<in> set dep_files. answered n)
        \<longrightarrow> (\<exists>snap. fst (get_repo_structure L owner repo token) = Inr (Some snap, None)
               \<and> structure snap = fs \<and> readme snap = ''No README.md found.'')))"
proof -
  let ?hdrs = "auth_headers token"
  let ?resp = "requests_get L (repo_url owner repo) ?hdrs"
  let ?tree = "\<lambda>kv. requests_get L
          (tree_url owner repo (py_str L (dict_get kv ''default_branch'' (JStr ''main'')))) ?hdrs"
  let ?readme = "requests_get L (contents_url owner repo ''README.md'') ?hdrs"
  let ?run = "get_repo_structure L owner repo token"
  let ?answered = "\<lambda>p. status_code (requests_get L (contents_url owner repo p) ?hdrs) \<noteq> 200
          \<or> (\<exists>d. json_body (requests_get L (contents_url owner repo p) ?hdrs) = Some (JObj d))"
  have error_only_if: "status_code ?resp \<noteq> 200 \<and> (\<exists>d. json_body ?resp = Some (JObj d))"
    if "fst ?run = Inr (None, Some msg)" for msg
  proof (cases "status_code ?resp = 200")
    case True
    from grs_200_steps[OF True that] show ?thesis by simp
  next
    case False
    from grs_error_path[OF False] that have "\<exists>d. json_body ?resp = Some (JObj d)"
      by (simp split: option.splits json.splits)
    with False show ?thesis by simp
  qed
  have error_text: "?run =
            (Inr (None, Some (''Error: Could not fetch repo. Status Code: ''
                     @ str_int (status_code ?resp) @ ''. Message: ''
                     @ py_str L (dict_get d ''message'' (JStr ''Unknown error'')))),
             [(repo_url owner repo, ?hdrs)])"
    if "status_code ?resp \<noteq> 200" "json_body ?resp = Some (JObj d)" for d
    using grs_error_path[OF that(1)] that(2) by simp
  have error_raise: "\<exists>e. ?run = (Inl e, [(repo_url owner repo, ?hdrs)])"
    if "status_code ?resp \<noteq> 200" "\<forall>d. json_body ?resp \<noteq> Some (JObj d)"
    using grs_error_path[OF that(1)] that(2)
    by (auto split: option.splits json.splits)
  have degraded: "status_code ?resp = 200
          \<and> (\<exists>kv. json_body ?resp = Some (JObj kv)
                \<and> (status_code (?tree kv) \<noteq> 200 \<longrightarrow> structure snap = [])
                \<and> (status_code ?readme \<noteq> 200 \<longrightarrow> readme snap = ''No README.md found.''))"
    if run: "fst ?run = Inr (Some snap, None)" for snap
  proof -
    from grs_snapshot[OF run] obtain kv rc
      where ok: "status_code ?resp = 200" and kv: "json_body ?resp = Some (JObj kv)"
        and fs: "file_structure (?tree kv) = Inr (structure snap)"
        and rc: "fst (fetch_file_content L owner repo ''README.md'' token) = Inr rc"
        and r: "readme snap = (if contains ''not found'' rc \<or> contains ''inaccessible'' rc
                      then ''No README.md found.'' else rc)"
      by blast
    have "structure snap = []" if "status_code (?tree kv) \<noteq> 200"
      using that fs by (simp add: file_structure_def)
    moreover have "readme snap = ''No README.md found.''" if "status_code ?readme \<noteq> 200"
      using fetch_not_200[OF that] rc r not_found_marker[of "''README.md''"] by auto
    ultimately show ?thesis using ok kv by blast
  qed
  have tree_fails: "\<exists>snap. fst ?run = Inr (Some snap, None) \<and> structure snap = []"
    if ok: "status_code ?resp = 200" and kv: "json_body ?resp = Some (JObj kv)"
      and tree: "status_code (?tree kv) \<noteq> 200"
      and answered: "\<forall>p \<in> set (''README.md'' # dep_files). ?answered p"
    for kv
  proof -
    from tree have fs: "file_structure (?tree kv) = Inr []" by (simp add: file_structure_def)
    from answered have "\<exists>c. fst (fetch_file_content L owner repo ''README.md'' token) = Inr c"
      unfolding fetch_returns_iff by simp
    then obtain rc where rc: "fst (fetch_file_content L owner repo ''README.md'' token) = Inr rc"
      by blast
    from answered
    have "\<forall>n \<in> set dep_files. \<exists>c. fst (fetch_file_content L owner repo n token) = Inr c"
      unfolding fetch_returns_iff by simp
    from loop_returns[OF this] obtain d
      where d: "fst (fetch_dependencies L owner repo token dep_files []) = Inr d" by blast
    from grs_returns[OF ok kv fs rc d] show ?thesis by simp
  qed
  have readme_fails: "\<exists>snap. fst ?run = Inr (Some snap, None)
               \<and> structure snap = fs \<and> readme snap = ''No README.md found.''"
    if ok: "status_code ?resp = 200" and kv: "json_body ?resp = Some (JObj kv)"
      and fs: "file_structure (?tree kv) = Inr fs" and rd: "status_code ?readme \<noteq> 200"
      and answered: "\<forall>n \<in> set dep_files. ?answered n"
    for kv fs
  proof -
    from answered
    have "\<forall>n \<in> set dep_files. \<exists>c. fst (fetch_file_content L owner repo n token) = Inr c"
      unfolding fetch_returns_iff by simp
    from loop_returns[OF this] obtain d
      where d: "fst (fetch_dependencies L owner repo token dep_files []) = Inr d" by blast
    from grs_returns[OF ok kv fs fetch_not_200[OF rd] d] not_found_marker[of "''README.md''"]
    show ?thesis by simp
  qed
  show ?thesis
    unfolding Let_def
    using error_only_if error_text error_raise degraded tree_fails readme_fails
    by (intro conjI) (metis fst_conv, blast+)
qed

theorem C1_witness:
  "status_code (requests_get github (repo_url ''octocat'' ''missing'') (auth_headers None)) = 404
   \<and> json_body (requests_get github (repo_url ''octocat'' ''missing'') (auth_headers None))
       = Some (JObj [(''message'', JStr ''Not Found'')])
   \<and> get_repo_structure github ''octocat'' ''missing'' None
       = (Inr (None, Some ''Error: Could not fetch repo. Status Code: 404. Message: Not Found''),
          [(repo_url ''octocat'' ''missing'', [])])
   \<and> status_code (requests_get github (tree_url ''octocat'' ''mislabeled'' ''main'')
        (auth_headers None)) = 404
   \<and> status_code (requests_get github (contents_url ''octocat'' ''mislabeled'' ''README.md'')
        (auth_headers None)) = 200
   \<and> (\<exists>snap. fst (get_repo_structure github ''octocat'' ''mislabeled'' None)
         = Inr (Some snap, None) \<and> structure snap = [])
   \<and> file_structure (requests_get github (tree_url ''octocat'' ''undocumented'' ''main'')
        (auth_headers None)) = Inr ''app.py''
   \<and> status_code (requests_get github (contents_url ''octocat'' ''undocumented'' ''README.md'')
        (auth_headers None)) = 404
   \<and> (\<exists>snap. fst (get_repo_structure github ''octocat'' ''undocumented'' None)
         = Inr (Some snap, None)
         \<and> structure snap = ''app.py'' \<and> readme snap = ''No README.md found.'')"
proof -
  let ?missing = "requests_get github (repo_url ''octocat'' ''missing'') (auth_headers None)"
  let ?answered = "\<lambda>repo p.
      status_code (requests_get github (contents_url ''octocat'' repo p) (auth_headers None)) \<noteq> 200
      \<or> (\<exists>d. json_body (requests_get github (contents_url ''octocat'' repo p) (auth_headers None))
             = Some (JObj d))"
  have m1: "status_code ?missing = 404"
    and m2: "json_body ?missing = Some (JObj [(''message'', JStr ''Not Found'')])"
    by (simp_all add: github_simps)
  have digits: "str_int 404 = ''404''"
    by (simp add: str_int_def digit_char_def)
  have hdr: "auth_headers None = []"
    by (simp add: auth_headers_def)
  note missing = C1_error_iff_metadata_fails[where token = None and L = github
      and owner = "''octocat''" and repo = "''missing''", unfolded Let_def]
  note mislabeled = C1_error_iff_metadata_fails[where token = None and L = github
      and owner = "''octocat''" and repo = "''mislabeled''", unfolded Let_def]
  note undocumented = C1_error_iff_metadata_fails[where token = None and L = github
      and owner = "''octocat''" and repo = "''undocumented''", unfolded Let_def]
  from m1 have m1': "status_code ?missing \<noteq> 200" by simp
  have error: "get_repo_structure github ''octocat'' ''missing'' None
       = (Inr (None, Some ''Error: Could not fetch repo. Status Code: 404. Message: Not Found''),
          [(repo_url ''octocat'' ''missing'', [])])"
    using missing[THEN conjunct2, THEN conjunct1, rule_format, OF conjI[OF m1' m2]]
    by (simp add: m1[unfolded hdr] hdr digits py_str_def dict_get_def)
  have l1: "status_code (requests_get github (repo_url ''octocat'' ''mislabeled'')
        (auth_headers None)) = 200"
    and l2: "json_body (requests_get github (repo_url ''octocat'' ''mislabeled'')
        (auth_headers None)) = Some (JObj [])"
    and l3: "status_code (requests_get github (tree_url ''octocat'' ''mislabeled''
        (py_str github (dict_get [] ''default_branch'' (JStr ''main'')))) (auth_headers None))
        \<noteq> 200"
    and l3': "status_code (requests_get github (tree_url ''octocat'' ''mislabeled'' ''main'')
        (auth_headers None)) = 404"
    and l4: "status_code (requests_get github (contents_url ''octocat'' ''mislabeled'' ''README.md'')
        (auth_headers None)) = 200"
    by (simp_all add: github_simps py_str_def)
  have l5: "\<forall>p \<in> set (''README.md'' # dep_files). ?answered ''mislabeled'' p"
    by (simp add: dep_files_def github_simps file_json_def)
  have tree_failed: "\<exists>snap. fst (get_repo_structure github ''octocat'' ''mislabeled'' None)
         = Inr (Some snap, None) \<and> structure snap = []"
    using mislabeled[THEN conjunct2, THEN conjunct2, THEN conjunct2, THEN conjunct2,
        THEN conjunct1, rule_format, of "[]"] l1 l2 l3 l5
    by blast
  have u1: "status_code (requests_get github (repo_url ''octocat'' ''undocumented'')
        (auth_headers None)) = 200"
    and u2: "json_body (requests_get github (repo_url ''octocat'' ''undocumented'')
        (auth_headers None)) = Some (JObj [])"
    and u3: "file_structure (requests_get github (tree_url ''octocat'' ''undocumented''
        (py_str github (dict_get [] ''default_branch'' (JStr ''main'')))) (auth_headers None))
        = Inr ''app.py''"
    and u3': "file_structure (requests_get github (tree_url ''octocat'' ''undocumented'' ''main'')
        (auth_headers None)) = Inr ''app.py''"
    and u4: "status_code (requests_get github (contents_url ''octocat'' ''undocumented''
        ''README.md'') (auth_headers None)) \<noteq> 200"
    and u4': "status_code (requests_get github (contents_url ''octocat'' ''undocumented''
        ''README.md'') (auth_headers None)) = 404"
    by (simp_all add: github_simps py_str_def file_structure_def tree_files_def json_of_def
        get_attr_def tree_paths_def item_path_def as_str_def)
  have u5: "\<forall>n \<in> set dep_files. ?answered ''undocumented'' n"
    by (simp add: dep_files_def github_simps)
  have readme_failed: "\<exists>snap. fst (get_repo_structure github ''octocat'' ''undocumented'' None)
         = Inr (Some snap, None)
         \<and> structure snap = ''app.py'' \<and> readme snap = ''No README.md found.''"
    using undocumented[THEN conjunct2, THEN conjunct2, THEN conjunct2, THEN conjunct2,
        THEN conjunct2, rule_format, of "[]" "''app.py''"] u1 u2 u3 u4 u5
    by blast
  from m1 m2 error l3' l4 tree_failed u3' u4' readme_failed show ?thesis by blast
qed

section \<open>C2: parsing the repository URL\<close>

lemma parse_form:
  assumes "CHR ''/'' \<notin> set owner" "CHR ''/'' \<notin> set repo" "repo \<noteq> []"
  shows "parse_github_url (pre @ ''/'' @ owner @ ''/'' @ repo @ replicate n CHR ''/'')
         = (Some owner, Some repo)"
proof -
  let ?u = "pre @ ''/'' @ owner @ ''/'' @ repo"
  have last: "last ?u \<notin> set ''/''" using assms by (auto simp: last_append dest: last_in_set)
  have "rstrip ''/'' (?u @ replicate n CHR ''/'') = ?u"
    using rstrip_replicate[of "CHR ''/''" ?u n] rstrip_id[of ?u "''/''"] last by simp
  moreover have "split_sep CHR ''/'' ?u = split_sep CHR ''/'' pre @ [owner, repo]"
    using assms split_sep_append[of "CHR ''/''" pre "owner @ ''/'' @ repo"]
      split_sep_append[of "CHR ''/''" owner repo]
    by (simp add: split_sep_no_sep)
  ultimately show ?thesis
    using py_getitem_last2[of "split_sep CHR ''/'' pre" owner repo]
      py_getitem_last[of "split_sep CHR ''/'' pre @ [owner, repo]"]
    by (simp add: parse_github_url_def)
qed

lemma parse_fails_iff:
  "parse_github_url url = (None, None) \<longleftrightarrow> CHR ''/'' \<notin> set (rstrip ''/'' url)"
proof -
  let ?parts = "split_sep CHR ''/'' (rstrip ''/'' url)"
  show ?thesis
  proof (cases "length ?parts < 2")
    case True
    then show ?thesis using split_sep_single[of "CHR ''/''" "rstrip ''/'' url"]
      by (simp add: parse_github_url_def)
  next
    case False
    then have "2 \<le> length ?parts" by simp
    then obtain a where a: "py_getitem ?parts (- 2) = Some a"
      using py_getitem_second_last by blast
    have "?parts \<noteq> []" by (rule split_sep_nonempty)
    then have b: "py_getitem ?parts (- 1) = Some (last ?parts)" by (rule py_getitem_last)
    show ?thesis using False a b split_sep_single[of "CHR ''/''" "rstrip ''/'' url"]
      by (simp add: parse_github_url_def)
  qed
qed

lemma parse_cases:
  "parse_github_url url = (None, None) \<or>
   (\<exists>owner repo. parse_github_url url = (Some owner, Some repo) \<and> repo \<noteq> [])"
proof -
  let ?s = "rstrip ''/'' url"
  let ?parts = "split_sep CHR ''/'' ?s"
  show ?thesis
  proof (cases "length ?parts < 2")
    case True
    then show ?thesis by (simp add: parse_github_url_def)
  next
    case False
    then have "2 \<le> length ?parts" by simp
    then obtain a where a: "py_getitem ?parts (- 2) = Some a"
      using py_getitem_second_last by blast
    have ne: "?parts \<noteq> []" by (rule split_sep_nonempty)
    then have b: "py_getitem ?parts (- 1) = Some (last ?parts)" by (rule py_getitem_last)
    have "CHR ''/'' \<in> set ?s" using False split_sep_single[of "CHR ''/''" ?s] by simp
    then have "?s \<noteq> []" by auto
    moreover from this have "last ?s \<noteq> CHR ''/''" using rstrip_last[of "''/''" url] by simp
    ultimately have "last ?parts \<noteq> []" by (rule last_split_sep)
    then show ?thesis using False a b by (simp add: parse_github_url_def)
  qed
qed

text \<open>
  Claim C2 does not hold as stated: \<open>parse_github_url\<close> succeeds on
  \<open>https://github.com\<close>, a URL with no path segment at all, and the owner it returns is the
  empty string.
\<close>

theorem C2_counterexample:
  "parse_github_url ''https://github.com'' = (Some '''', Some ''github.com'')"
  by (simp add: parse_github_url_def rstrip_def py_getitem_def)

text \<open>
  Claim C2, amended. For a URL \<open>pre/owner/repo\<close>, with any number of trailing slashes,
  where neither name holds a slash and \<open>repo\<close> is not empty, \<open>parse_github_url\<close> yields
  exactly \<open>owner\<close> and \<open>repo\<close>. It fails exactly when the URL without its trailing slashes
  has fewer than two pieces between slashes, that is when it holds no slash; the pieces are
  those of the whole string, scheme and host included. Whenever it succeeds the repo is not
  empty; the owner may be. The caller's guard \<open>not owner or not repo\<close> accepts a URL only
  when both are non-empty.
\<close>

theorem C2_parse_github_url:
  "(CHR ''/'' \<notin> set owner \<and> CHR ''/'' \<notin> set repo \<and> repo \<noteq> [] \<longrightarrow>
      parse_github_url (pre @ ''/'' @ owner @ ''/'' @ repo @ replicate n CHR ''/'')
        = (Some owner, Some repo))
   \<and> (length (split_sep CHR ''/'' (rstrip ''/'' url)) < 2 \<longleftrightarrow> CHR ''/'' \<notin> set (rstrip ''/'' url))
   \<and> (parse_github_url url = (None, None) \<longleftrightarrow> CHR ''/'' \<notin> set (rstrip ''/'' url))
   \<and> (parse_github_url url = (None, None) \<or>
        (\<exists>o' r'. parse_github_url url = (Some o', Some r') \<and> r' \<noteq> []))
   \<and> (url_accepted url \<longleftrightarrow>
        (\<exists>o' r'. parse_github_url url = (Some o', Some r') \<and> o' \<noteq> [] \<and> r' \<noteq> []))"
proof -
  have accepted: "url_accepted url \<longleftrightarrow>
        (\<exists>o' r'. parse_github_url url = (Some o', Some r') \<and> o' \<noteq> [] \<and> r' \<noteq> [])"
    using parse_cases[of url]
    by (auto simp: url_accepted_def truthy_def split: option.splits)
  show ?thesis
    using parse_form[of owner repo pre n] split_sep_single[of "CHR ''/''" "rstrip ''/'' url"]
      parse_fails_iff[of url] parse_cases[of url] accepted
    by blast
qed

theorem C2_witness:
  "CHR ''/'' \<notin> set ''octocat'' \<and> CHR ''/'' \<notin> set ''Hello-World'' \<and> ''Hello-World'' \<noteq> []
   \<and> parse_github_url ''https://github.com/octocat/Hello-World/''
        = (Some ''octocat'', Some ''Hello-World'')
   \<and> url_accepted ''https://github.com/octocat/Hello-World/''
   \<and> parse_github_url ''octocat'' = (None, None)"
  using C2_parse_github_url[of "''octocat''" "''Hello-World''" "''https://github.com''" 1
      "''https://github.com/octocat/Hello-World/''"]
    C2_parse_github_url[of "''octocat''" "''Hello-World''" "''https://github.com''" 0
      "''octocat''"]
  by (simp add: rstrip_def)

section \<open>C3: a payload that does not decode\<close>

text \<open>
  Claim C3 does not hold as stated: the payload \<open>/w==\<close> of \<open>requirements.txt\<close> decodes
  to the byte \<open>0xFF\<close>, which is not UTF-8, and the text returned for it holds neither
  \<open>not found\<close> nor \<open>inaccessible\<close>, so the snapshot lists it as the content of the file.
\<close>

theorem C3_counterexample:
  "status_code (requests_get github (contents_url ''octocat'' ''garbled'' ''requirements.txt'')
      (auth_headers None)) = 200
   \<and> b64decode github ''/w=='' = Some [CHR 0xFF] \<and> \<not> utf8_valid github [CHR 0xFF]
   \<and> fst (fetch_file_content github ''octocat'' ''garbled'' ''requirements.txt'' None)
      = Inr ''Error decoding requirements.txt content.''
   \<and> \<not> contains ''not found'' ''Error decoding requirements.txt content.''
   \<and> \<not> contains ''inaccessible'' ''Error decoding requirements.txt content.''
   \<and> fst (get_repo_structure github ''octocat'' ''garbled'' None)
      = Inr (Some \<lparr>metadata = JObj [], structure = [], readme = ''No README.md found.'',
                   dependencies = [(''requirements.txt'',
                                    ''Error decoding requirements.txt content.'')]\<rparr>,
             None)"
  by code_simp

text \<open>
  Claim C3, amended. On a response with status 200 whose payload fails to decode, as base64
  or as UTF-8, \<open>fetch_file_content\<close> returns the text \<open>Error decoding <path> content.\<close>.
  For \<open>README.md\<close> and the seven manifest names this text holds neither \<open>not found\<close> nor
  \<open>inaccessible\<close>, so the callers take it for the content of the file: it becomes the
  README text of the snapshot, or the entry of the manifest in the dependency mapping.
\<close>

theorem C3_decode_failure:
  "(let resp = requests_get L (contents_url owner repo p) (auth_headers t);
        message = ''Error decoding '' @ p @ '' content.'' in
     (\<forall>d. status_code resp = 200 \<and> json_body resp = Some (JObj d)
          \<and> decode_content L (dict_get d ''content'' (JStr '''')) = None
        \<longrightarrow> fst (fetch_file_content L owner repo p t) = Inr message)
   \<and> (\<forall>s. decode_content L (JStr s) = None \<longleftrightarrow>
          b64decode L s = None \<or> (\<exists>bs. b64decode L s = Some bs \<and> \<not> utf8_valid L bs))
   \<and> (p \<in> set (''README.md'' # dep_files) \<longrightarrow>
        \<not> contains ''not found'' message \<and> \<not> contains ''inaccessible'' message)
   \<and> (\<forall>snap. fst (get_repo_structure L owner repo t) = Inr (Some snap, None)
          \<and> fst (fetch_file_content L owner repo p t) = Inr message
        \<longrightarrow> (p = ''README.md'' \<longrightarrow> readme snap = message)
          \<and> (p \<in> set dep_files \<longrightarrow> (p, message) \<in> set (dependencies snap))))"
proof -
  let ?resp = "requests_get L (contents_url owner repo p) (auth_headers t)"
  let ?message = "''Error decoding '' @ p @ '' content.''"
  have failure: "fst (fetch_file_content L owner repo p t) = Inr ?message"
    if "status_code ?resp = 200" "json_body ?resp = Some (JObj d)"
      "decode_content L (dict_get d ''content'' (JStr '''')) = None" for d
    using that fetch_200[of L owner repo p t] by simp
  have modes: "decode_content L (JStr s) = None \<longleftrightarrow>
          b64decode L s = None \<or> (\<exists>bs. b64decode L s = Some bs \<and> \<not> utf8_valid L bs)" for s
    by (auto simp: decode_content_def split: option.splits)
  have unmarked: "\<not> contains ''not found'' ?message \<and> \<not> contains ''inaccessible'' ?message"
    if "p \<in> set (''README.md'' # dep_files)"
    using that by (auto simp: dep_files_def)
  have kept: "(p = ''README.md'' \<longrightarrow> readme snap = ?message)
          \<and> (p \<in> set dep_files \<longrightarrow> (p, ?message) \<in> set (dependencies snap))"
    if run: "fst (get_repo_structure L owner repo t) = Inr (Some snap, None)"
      and got: "fst (fetch_file_content L owner repo p t) = Inr ?message" for snap
  proof (intro conjI impI)
    assume p: "p = ''README.md''"
    from grs_snapshot[OF run] obtain rc
      where rc: "fst (fetch_file_content L owner repo ''README.md'' t) = Inr rc"
        and r: "readme snap = (if contains ''not found'' rc \<or> contains ''inaccessible'' rc
                      then ''No README.md found.'' else rc)"
      by blast
    from rc got p have "rc = ?message" by simp
    with r unmarked p show "readme snap = ?message" by simp
  next
    assume p: "p \<in> set dep_files"
    from deps_membership[OF run] obtain d
      where deps: "dependencies snap = (if d = [] then [(''status'', no_dependency_message)] else d)"
        and mem: "\<forall>n c. (n, c) \<in> set d \<longleftrightarrow>
          n \<in> set dep_files \<and> fst (fetch_file_content L owner repo n t) = Inr c
          \<and> \<not> contains ''not found'' c \<and> \<not> contains ''inaccessible'' c"
      by blast
    from mem p got unmarked have "(p, ?message) \<in> set d" by simp
    moreover from this have "d \<noteq> []" by auto
    ultimately show "(p, ?message) \<in> set (dependencies snap)" using deps by simp
  qed
  show ?thesis
    unfolding Let_def using failure modes unmarked kept by blast
qed

theorem C3_witness:
  "status_code (requests_get github (contents_url ''octocat'' ''garbled'' ''requirements.txt'')
      (auth_headers None)) = 200
   \<and> json_body (requests_get github (contents_url ''octocat'' ''garbled'' ''requirements.txt'')
      (auth_headers None)) = Some (JObj [(''name'', JStr ''file''), (''content'', JStr ''/w=='')])
   \<and> decode_content github (JStr ''/w=='') = None
   \<and> ''requirements.txt'' \<in> set dep_files
   \<and> fst (fetch_file_content github ''octocat'' ''garbled'' ''requirements.txt'' None)
      = Inr ''Error decoding requirements.txt content.''
   \<and> \<not> contains ''not found'' ''Error decoding requirements.txt content.''"
  using C3_decode_failure[of github "''octocat''" "''garbled''" "''requirements.txt''" None]
  by (simp add: Let_def github_simps decode_content_def dep_files_def)

section \<open>C4: the dependency mapping\<close>





section \<open>C5: the file list\<close>



section \<open>C6: what \<open>fetch_file_content\<close> returns\<close>

text \<open>
  Claim C6 at a response the function does not handle. The contents endpoint answers 200
  with a JSON array for a directory. \<open>fetch_file_content\<close> reads the body and calls \<open>get\<close>
  on it in the line above its \<open>try\<close>, so the \<open>AttributeError\<close> of the array is not caught
  by the bare \<open>except\<close> and leaves the function.
\<close>

theorem C6_directory_listing_raises:
  "status_code (requests_get github (contents_url ''octocat'' ''folder'' ''docs'') (auth_headers None))
     = 200
   \<and> json_body (requests_get github (contents_url ''octocat'' ''folder'' ''docs'') (auth_headers None))
     = Some (JArr [])
   \<and> fst (fetch_file_content github ''octocat'' ''folder'' ''docs'' None) = Inl AttributeError"
  by (simp add: fetch_file_content_def io_simps json_of_def get_attr_def github_simps)

text \<open>
  The other parts of claim C6 hold. On a response with status 200 whose body is a JSON
  object with a valid base64 payload of UTF-8 text, \<open>fetch_file_content\<close> returns the
  decoded text exactly. On any other status it returns the text
  \<open>File <path> not found or inaccessible.\<close>, which holds the mark \<open>not found\<close>. It
  raises exactly when the status is 200 and the body is not a JSON object. In every case it
  issues the one request for the file.
\<close>

lemma fetch_file_content_cases:
  "(let resp = requests_get L (contents_url owner repo p) (auth_headers t) in
     (\<forall>d s bs. status_code resp = 200 \<and> json_body resp = Some (JObj d)
          \<and> map_of d ''content'' = Some (JStr s) \<and> b64decode L s = Some bs \<and> utf8_valid L bs
        \<longrightarrow> fst (fetch_file_content L owner repo p t) = Inr bs)
   \<and> (status_code resp \<noteq> 200 \<longrightarrow>
        fst (fetch_file_content L owner repo p t)
          = Inr (''File '' @ p @ '' not found or inaccessible.'')
        \<and> contains ''not found'' (''File '' @ p @ '' not found or inaccessible.''))
   \<and> ((\<exists>e. fst (fetch_file_content L owner repo p t) = Inl e)
        \<longleftrightarrow> status_code resp = 200 \<and> (\<forall>d. json_body resp \<noteq> Some (JObj d)))
   \<and> snd (fetch_file_content L owner repo p t) = [(contents_url owner repo p, auth_headers t)])"
proof -
  let ?resp = "requests_get L (contents_url owner repo p) (auth_headers t)"
  have decoded: "fst (fetch_file_content L owner repo p t) = Inr bs"
    if "status_code ?resp = 200" "json_body ?resp = Some (JObj d)"
      "map_of d ''content'' = Some (JStr s)" "b64decode L s = Some bs" "utf8_valid L bs"
    for d s bs
    using that fetch_200[of L owner repo p t]
    by (simp add: decode_content_def dict_get_def)
  have absent: "fst (fetch_file_content L owner repo p t)
          = Inr (''File '' @ p @ '' not found or inaccessible.'')"
    if "status_code ?resp \<noteq> 200"
    using that by (rule fetch_not_200)
  have raises: "(\<exists>e. fst (fetch_file_content L owner repo p t) = Inl e)
        \<longleftrightarrow> status_code ?resp = 200 \<and> (\<forall>d. json_body ?resp \<noteq> Some (JObj d))"
  proof (cases "status_code ?resp = 200")
    case True
    then show ?thesis using fetch_200[of L owner repo p t]
      by (auto split: option.splits json.splits)
  next
    case False
    then show ?thesis using fetch_not_200[of L owner repo p t] by simp
  qed
  show ?thesis
    unfolding Let_def
    using decoded absent raises not_found_marker[of p] fetch_requests[of L owner repo p t]
    by blast
qed

lemma fetch_file_content_cases_example:
  "status_code (requests_get github (contents_url ''octocat'' ''Hello-World'' ''README.md'')
      (auth_headers None)) = 200
   \<and> json_body (requests_get github (contents_url ''octocat'' ''Hello-World'' ''README.md'')
      (auth_headers None)) = Some (JObj [(''name'', JStr ''file''), (''content'', JStr ''aGk='')])
   \<and> b64decode github ''aGk='' = Some ''hi'' \<and> utf8_valid github ''hi''
   \<and> fst (fetch_file_content github ''octocat'' ''Hello-World'' ''README.md'' None) = Inr ''hi''
   \<and> status_code (requests_get github (contents_url ''octocat'' ''Hello-World'' ''Pipfile'')
      (auth_headers None)) = 404
   \<and> fst (fetch_file_content github ''octocat'' ''Hello-World'' ''Pipfile'' None)
      = Inr ''File Pipfile not found or inaccessible.''"
  using fetch_file_content_cases[of github "''octocat''" "''Hello-World''" "''README.md''" None]
    fetch_file_content_cases[of github "''octocat''" "''Hello-World''" "''Pipfile''" None]
  by (simp add: Let_def github_simps)

section \<open>C7: the branch of the tree request\<close>

text \<open>
  Claim C7. After a metadata answer with status 200 whose body is a JSON object, the second
  request of \<open>get_repo_structure\<close> goes to the address
  \<open>https://api.github.com/repos/<owner>/<repo>/git/trees/<branch>?recursive=1\<close>, and the
  structure of the snapshot it returns is built from the answer to that request. The
  branch in the address is \<open>main\<close> when the metadata has no field \<open>default_branch\<close>; when
  it has the field, the branch is the value of the field as an f-string renders it, so the
  string itself when the value is a string. Addresses of different branches differ, so the
  tree of \<open>main\<close> is requested only when the field is absent or renders as \<open>main\<close>.
\<close>

theorem C7_default_branch:
  "(let hdrs = auth_headers token;
        repo_address = ''https://api.github.com/repos/'' @ owner @ ''/'' @ repo;
        tree_address = (\<lambda>branch. ''https://api.github.com/repos/'' @ owner @ ''/'' @ repo
                          @ ''/git/trees/'' @ branch @ ''?recursive=1'');
        resp = requests_get L repo_address hdrs;
        requests_tree_of = (\<lambda>branch.
          \<exists>rest. snd (get_repo_structure L owner repo token)
             = (repo_address, hdrs) # (tree_address branch, hdrs) # rest);
        fetches_tree_of = (\<lambda>branch.
          requests_tree_of branch
          \<and> (\<forall>snap. fst (get_repo_structure L owner repo token) = Inr (Some snap, None)
               \<longrightarrow> file_structure (requests_get L (tree_address branch) hdrs)
                     = Inr (structure snap))) in
     (status_code resp = 200 \<and> json_body resp = Some (JObj kv) \<longrightarrow>
        (map_of kv ''default_branch'' = None \<longrightarrow> fetches_tree_of ''main'')
        \<and> (\<forall>b. map_of kv ''default_branch'' = Some (JStr b) \<longrightarrow> fetches_tree_of b)
        \<and> (\<forall>v. map_of kv ''default_branch'' = Some v \<longrightarrow> fetches_tree_of (py_str L v))
        \<and> (requests_tree_of ''main'' \<longrightarrow>
              map_of kv ''default_branch'' = None
              \<or> (\<exists>v. map_of kv ''default_branch'' = Some v \<and> py_str L v = ''main'')))
     \<and> (\<forall>b b'. tree_address b = tree_address b' \<longrightarrow> b = b')
     \<and> (\<forall>b. tree_url owner repo b = tree_address b)
     \<and> repo_url owner repo = repo_address)"
proof -
  let ?hdrs = "auth_headers token"
  let ?repo = "''https://api.github.com/repos/'' @ owner @ ''/'' @ repo"
  let ?tree = "\<lambda>branch. ''https://api.github.com/repos/'' @ owner @ ''/'' @ repo
                          @ ''/git/trees/'' @ branch @ ''?recursive=1''"
  let ?resp = "requests_get L ?repo ?hdrs"
  let ?run = "get_repo_structure L owner repo token"
  let ?branch = "py_str L (dict_get kv ''default_branch'' (JStr ''main''))"
  let ?requests = "\<lambda>branch. \<exists>rest. snd ?run = (?repo, ?hdrs) # (?tree branch, ?hdrs) # rest"
  let ?uses = "\<lambda>branch. ?requests branch
          \<and> (\<forall>snap. fst ?run = Inr (Some snap, None)
               \<longrightarrow> file_structure (requests_get L (?tree branch) ?hdrs) = Inr (structure snap))"
  have repo: "repo_url owner repo = ?repo" by (simp add: repo_url_def)
  have tree: "tree_url owner repo b = ?tree b" for b by (simp add: tree_url_def)
  have differ: "b = b'" if "?tree b = ?tree b'" for b b'
    using that by simp
  have uses: "?uses ?branch"
    if ok: "status_code ?resp = 200" and body: "json_body ?resp = Some (JObj kv)"
  proof (intro conjI allI impI)
    from grs_tree_request[of L owner repo token kv] ok body
    show "?requests ?branch" unfolding repo tree by simp
  next
    fix snap assume run: "fst ?run = Inr (Some snap, None)"
    from grs_snapshot[OF run] body
    show "file_structure (requests_get L (?tree ?branch) ?hdrs) = Inr (structure snap)"
      unfolding repo tree by auto
  qed
  have absent: "?branch = ''main''" if "map_of kv ''default_branch'' = None"
    using that by (simp add: dict_get_def py_str_def)
  have present: "?branch = py_str L v" if "map_of kv ''default_branch'' = Some v" for v
    using that by (simp add: dict_get_def)
  have rendered: "py_str L (JStr b) = b" for b
    by (simp add: py_str_def)
  have success: "(map_of kv ''default_branch'' = None \<longrightarrow> ?uses ''main'')
        \<and> (\<forall>b. map_of kv ''default_branch'' = Some (JStr b) \<longrightarrow> ?uses b)
        \<and> (\<forall>v. map_of kv ''default_branch'' = Some v \<longrightarrow> ?uses (py_str L v))
        \<and> (?requests ''main'' \<longrightarrow>
              map_of kv ''default_branch'' = None
              \<or> (\<exists>v. map_of kv ''default_branch'' = Some v \<and> py_str L v = ''main''))"
    if "status_code ?resp = 200 \<and> json_body ?resp = Some (JObj kv)"
  proof -
    from that uses have u: "?uses ?branch" by blast
    have fallback: "map_of kv ''default_branch'' = None \<longrightarrow> ?uses ''main''"
    proof
      assume none: "map_of kv ''default_branch'' = None"
      from u show "?uses ''main''" unfolding absent[OF none] .
    qed
    have field: "\<forall>v. map_of kv ''default_branch'' = Some v \<longrightarrow> ?uses (py_str L v)"
    proof (intro allI impI)
      fix v assume some: "map_of kv ''default_branch'' = Some v"
      from u show "?uses (py_str L v)" unfolding present[OF some] .
    qed
    have named: "\<forall>b. map_of kv ''default_branch'' = Some (JStr b) \<longrightarrow> ?uses b"
    proof (intro allI impI)
      fix b assume "map_of kv ''default_branch'' = Some (JStr b)"
      with field have "?uses (py_str L (JStr b))" by blast
      then show "?uses b" unfolding rendered .
    qed
    have only: "?requests ''main'' \<longrightarrow>
              map_of kv ''default_branch'' = None
              \<or> (\<exists>v. map_of kv ''default_branch'' = Some v \<and> py_str L v = ''main'')"
    proof
      assume "?requests ''main''"
      moreover from u have "?requests ?branch" by blast
      ultimately have "?tree ?branch = ?tree ''main''" by auto
      then have main: "?branch = ''main''" by (rule differ)
      show "map_of kv ''default_branch'' = None
              \<or> (\<exists>v. map_of kv ''default_branch'' = Some v \<and> py_str L v = ''main'')"
      proof (cases "map_of kv ''default_branch''")
        case None
        then show ?thesis by simp
      next
        case (Some v)
        with present[OF Some] main show ?thesis by simp
      qed
    qed
    from fallback named field only show ?thesis by (intro conjI)
  qed
  show ?thesis
    unfolding Let_def
    using success differ tree repo by (intro conjI impI allI) blast+
qed

theorem C7_witness:
  "status_code (requests_get github ''https://api.github.com/repos/octocat/Hello-World''
      (auth_headers None)) = 200
   \<and> json_body (requests_get github ''https://api.github.com/repos/octocat/Hello-World''
      (auth_headers None))
       = Some (JObj [(''default_branch'', JStr ''master''), (''stargazers_count'', JInt 80)])
   \<and> (\<exists>rest. snd (get_repo_structure github ''octocat'' ''Hello-World'' None)
         = (''https://api.github.com/repos/octocat/Hello-World'', auth_headers None)
           # (''https://api.github.com/repos/octocat/Hello-World/git/trees/master?recursive=1'',
              auth_headers None)
           # rest)
   \<and> status_code (requests_get github ''https://api.github.com/repos/octocat/bare''
      (auth_headers None)) = 200
   \<and> json_body (requests_get github ''https://api.github.com/repos/octocat/bare''
      (auth_headers None)) = Some (JObj [])
   \<and> (\<exists>rest. snd (get_repo_structure github ''octocat'' ''bare'' None)
         = (''https://api.github.com/repos/octocat/bare'', auth_headers None)
           # (''https://api.github.com/repos/octocat/bare/git/trees/main?recursive=1'',
              auth_headers None)
           # rest)"
proof -
  let ?hello = "requests_get github (''https://api.github.com/repos/'' @ ''octocat'' @ ''/''
      @ ''Hello-World'') (auth_headers None)"
  let ?bare = "requests_get github (''https://api.github.com/repos/'' @ ''octocat'' @ ''/''
      @ ''bare'') (auth_headers None)"
  let ?kv = "[(''default_branch'', JStr ''master''), (''stargazers_count'', JInt 80)]"
  have h1: "status_code ?hello = 200" and h2: "json_body ?hello = Some (JObj ?kv)"
    by (simp_all add: github_simps)
  have h3: "map_of ?kv ''default_branch'' = Some (JStr ''master'')" by simp
  have b1: "status_code ?bare = 200" and b2: "json_body ?bare = Some (JObj [])"
    by (simp_all add: github_simps)
  have b3: "map_of ([] :: (string \<times> json) list) ''default_branch'' = None" by simp
  from C7_default_branch[where token = None and L = github and owner = "''octocat''"
      and repo = "''Hello-World''" and kv = ?kv, unfolded Let_def,
      THEN conjunct1, rule_format, OF conjI[OF h1 h2], THEN conjunct2, THEN conjunct1,
      rule_format, OF h3, THEN conjunct1]
  have hello: "\<exists>rest. snd (get_repo_structure github ''octocat'' ''Hello-World'' None)
         = (''https://api.github.com/repos/octocat/Hello-World'', auth_headers None)
           # (''https://api.github.com/repos/octocat/Hello-World/git/trees/master?recursive=1'',
              auth_headers None)
           # rest"
    by simp
  from C7_default_branch[where token = None and L = github and owner = "''octocat''"
      and repo = "''bare''" and kv = "[]", unfolded Let_def,
      THEN conjunct1, rule_format, OF conjI[OF b1 b2], THEN conjunct1, rule_format, OF b3,
      THEN conjunct1]
  have bare: "\<exists>rest. snd (get_repo_structure github ''octocat'' ''bare'' None)
         = (''https://api.github.com/repos/octocat/bare'', auth_headers None)
           # (''https://api.github.com/repos/octocat/bare/git/trees/main?recursive=1'',
              auth_headers None)
           # rest"
    by simp
  from h1 h2 b1 b2 hello bare show ?thesis by simp
qed

section \<open>C8: the analysis\<close>

lemma dep_summary_Cons:
  "dep_summary ((name, content) # rest) =
     ''--- '' @ name @ '' ---'' @ [CHR 0x0A] @ content
       @ (if rest = [] then [] else [CHR 0x0A, CHR 0x0A] @ dep_summary rest)"
  by (cases rest) (simp_all add: dep_summary_def dep_block_def)

text \<open>
  Claim C8. When the configuration, the creation of the model and the generation succeed,
  \<open>analyze_with_gemini\<close> returns the generated text as it is. When the configuration or the
  creation of the model raises, it returns \<open>Error configuring Gemini API or loading model: \<close>
  followed by the text of the exception, and when the generation raises,
  \<open>Error generating content: \<close> followed by the text of the exception. These cases are
  all there are: the result is always a text of one of the three kinds, and no exception of
  the library leaves the function. The prompt that the model receives is the fixed text
  with the metadata, the file structure, the README and the dependency summary in its four
  places; the summary is empty for an empty mapping and otherwise the block
  \<open>--- name ---\<close>, a newline and the content for each entry in order, the blocks separated
  by an empty line.
\<close>

theorem C8_analyze:
  "(let result = analyze_with_gemini L G snap api_key model_name;
        prompt = build_prompt L snap in
     (genai_configure G api_key = None \<and> genai_model G model_name = None
        \<and> genai_generate G api_key model_name prompt = Inr generated \<longrightarrow> result = generated)
   \<and> (\<forall>e. genai_configure G api_key = Some e \<longrightarrow>
          result = ''Error configuring Gemini API or loading model: '' @ e)
   \<and> (\<forall>e. genai_configure G api_key = None \<and> genai_model G model_name = Some e \<longrightarrow>
          result = ''Error configuring Gemini API or loading model: '' @ e)
   \<and> (\<forall>e. genai_configure G api_key = None \<and> genai_model G model_name = None
          \<and> genai_generate G api_key model_name prompt = Inl e \<longrightarrow>
          result = ''Error generating content: '' @ e)
   \<and> (genai_generate G api_key model_name prompt = Inr result
        \<or> (\<exists>e. result = ''Error configuring Gemini API or loading model: '' @ e)
        \<or> (\<exists>e. result = ''Error generating content: '' @ e))
   \<and> prompt = prompt_intro @ py_str L (metadata snap)
        @ prompt_structure_label @ structure snap
        @ prompt_readme_label @ readme snap
        @ prompt_dependency_label @ dep_summary (dependencies snap)
        @ prompt_rubric
   \<and> dep_summary [] = []
   \<and> (\<forall>name content rest. dep_summary ((name, content) # rest) =
          ''--- '' @ name @ '' ---'' @ [CHR 0x0A] @ content
            @ (if rest = [] then [] else [CHR 0x0A, CHR 0x0A] @ dep_summary rest)))"
proof -
  let ?result = "analyze_with_gemini L G snap api_key model_name"
  let ?prompt = "build_prompt L snap"
  have verbatim: "?result = answer"
    if "genai_configure G api_key = None" "genai_model G model_name = None"
      "genai_generate G api_key model_name ?prompt = Inr answer" for answer
    using that by (simp add: analyze_with_gemini_def)
  have configure: "?result = ''Error configuring Gemini API or loading model: '' @ e"
    if "genai_configure G api_key = Some e" for e
    using that by (simp add: analyze_with_gemini_def)
  have model: "?result = ''Error configuring Gemini API or loading model: '' @ e"
    if "genai_configure G api_key = None" "genai_model G model_name = Some e" for e
    using that by (simp add: analyze_with_gemini_def)
  have generate: "?result = ''Error generating content: '' @ e"
    if "genai_configure G api_key = None" "genai_model G model_name = None"
      "genai_generate G api_key model_name ?prompt = Inl e" for e
    using that by (simp add: analyze_with_gemini_def)
  have total: "genai_generate G api_key model_name ?prompt = Inr ?result
        \<or> (\<exists>e. ?result = ''Error configuring Gemini API or loading model: '' @ e)
        \<or> (\<exists>e. ?result = ''Error generating content: '' @ e)"
  proof (cases "genai_configure G api_key")
    case (Some e)
    from configure[OF this] show ?thesis by blast
  next
    case None
    show ?thesis
    proof (cases "genai_model G model_name")
      case (Some e)
      from model[OF None this] show ?thesis by blast
    next
      case no_error: None
      show ?thesis
      proof (cases "genai_generate G api_key model_name ?prompt")
        case (Inl e)
        from generate[OF None no_error this] show ?thesis by blast
      next
        case (Inr answer)
        from verbatim[OF None no_error this] Inr show ?thesis by simp
      qed
    qed
  qed
  have prompt: "?prompt = prompt_intro @ py_str L (metadata snap)
        @ prompt_structure_label @ structure snap
        @ prompt_readme_label @ readme snap
        @ prompt_dependency_label @ dep_summary (dependencies snap)
        @ prompt_rubric"
    by (simp only: build_prompt_def)
  have empty: "dep_summary [] = []"
    by (simp add: dep_summary_def)
  show ?thesis
    unfolding Let_def
    using verbatim configure model generate total prompt empty dep_summary_Cons
    by (intro conjI allI impI) blast+
qed

theorem C8_witness:
  "genai_configure gemini ''good-key'' = None
   \<and> genai_model gemini ''models/gemini-2.5-flash'' = None
   \<and> analyze_with_gemini github gemini
        \<lparr>metadata = JObj [], structure = ''README.md'', readme = ''hi'',
         dependencies = [(''package.json'', ''{}'')]\<rparr> ''good-key'' ''models/gemini-2.5-flash''
       = ''### SCORE'' @ [CHR 0x0A] @ ''80...''
   \<and> genai_model gemini [] = Some ''empty model name''
   \<and> analyze_with_gemini github gemini
        \<lparr>metadata = JObj [], structure = ''README.md'', readme = ''hi'',
         dependencies = [(''package.json'', ''{}'')]\<rparr> ''good-key'' []
       = ''Error configuring Gemini API or loading model: empty model name''
   \<and> analyze_with_gemini github gemini
        \<lparr>metadata = JObj [], structure = ''README.md'', readme = ''hi'',
         dependencies = [(''package.json'', ''{}'')]\<rparr> ''bad-key'' ''models/gemini-2.5-flash''
       = ''Error generating content: 400 API key not valid''
   \<and> dep_summary [(''package.json'', ''{}''), (''yarn.lock'', ''# lock'')]
       = ''--- package.json ---'' @ [CHR 0x0A] @ ''{}'' @ [CHR 0x0A, CHR 0x0A]
         @ ''--- yarn.lock ---'' @ [CHR 0x0A] @ ''# lock''"
proof -
  let ?snap = "\<lparr>metadata = JObj [], structure = ''README.md'', readme = ''hi'',
         dependencies = [(''package.json'', ''{}'')]\<rparr>"
  let ?flash = "''models/gemini-2.5-flash''"
  have c: "genai_configure gemini k = None" for k
    by (simp add: gemini_def)
  have m: "genai_model gemini ?flash = None"
    and m': "genai_model gemini [] = Some ''empty model name''"
    by (simp_all add: gemini_def)
  have g: "genai_generate gemini ''good-key'' ?flash (build_prompt github ?snap)
      = Inr (''### SCORE'' @ [CHR 0x0A] @ ''80...'')"
    and g': "genai_generate gemini ''bad-key'' ?flash (build_prompt github ?snap)
      = Inl ''400 API key not valid''"
    by (simp_all add: gemini_def)
  note good = C8_analyze[of github gemini ?snap "''good-key''" ?flash, unfolded Let_def]
  note unnamed = C8_analyze[of github gemini ?snap "''good-key''" "[]", unfolded Let_def]
  note bad = C8_analyze[of github gemini ?snap "''bad-key''" ?flash, unfolded Let_def]
  from good[THEN conjunct1, rule_format, OF conjI[OF c conjI[OF m g]]]
  have 1: "analyze_with_gemini github gemini ?snap ''good-key'' ?flash
       = ''### SCORE'' @ [CHR 0x0A] @ ''80...''" .
  from unnamed[THEN conjunct2, THEN conjunct2, THEN conjunct1, rule_format, OF conjI[OF c m']]
  have 2: "analyze_with_gemini github gemini ?snap ''good-key'' []
       = ''Error configuring Gemini API or loading model: empty model name''"
    by simp
  from bad[THEN conjunct2, THEN conjunct2, THEN conjunct2, THEN conjunct1, rule_format,
      OF conjI[OF c conjI[OF m g']]]
  have 3: "analyze_with_gemini github gemini ?snap ''bad-key'' ?flash
       = ''Error generating content: 400 API key not valid''"
    by simp
  have 4: "dep_summary [(''package.json'', ''{}''), (''yarn.lock'', ''# lock'')]
       = ''--- package.json ---'' @ [CHR 0x0A] @ ''{}'' @ [CHR 0x0A, CHR 0x0A]
         @ ''--- yarn.lock ---'' @ [CHR 0x0A] @ ''# lock''"
    by (simp add: dep_summary_def dep_block_def)
  from c[of "''good-key''"] m 1 m' 2 3 4 show ?thesis by blast
qed

section \<open>C9: a found file whose text holds an absence mark\<close>

text \<open>
  Claim C9. When \<open>get_repo_structure\<close> returns a snapshot and a file was answered with
  status 200 and a payload that decodes to a text holding \<open>not found\<close> or
  \<open>inaccessible\<close>, then \<open>fetch_file_content\<close> has returned that very text, and the
  snapshot treats the file as absent: for \<open>README.md\<close> the README of the snapshot is the
  placeholder \<open>No README.md found.\<close>, and a manifest name is not a key of the dependency
  mapping.
\<close>

theorem C9_marker_in_content:
  "fst (get_repo_structure L owner repo token) = Inr (Some snap, None)
   \<and> status_code (requests_get L (contents_url owner repo p) (auth_headers token)) = 200
   \<and> json_body (requests_get L (contents_url owner repo p) (auth_headers token)) = Some (JObj d)
   \<and> decode_content L (dict_get d ''content'' (JStr '''')) = Some decoded
   \<and> (contains ''not found'' decoded \<or> contains ''inaccessible'' decoded)
   \<longrightarrow> fst (fetch_file_content L owner repo p token) = Inr decoded
       \<and> (p = ''README.md'' \<longrightarrow> readme snap = ''No README.md found.'')
       \<and> (p \<in> set dep_files \<longrightarrow> p \<notin> fst ` set (dependencies snap))"
proof (intro impI, elim conjE)
  assume run: "fst (get_repo_structure L owner repo token) = Inr (Some snap, None)"
    and ok: "status_code (requests_get L (contents_url owner repo p) (auth_headers token)) = 200"
    and body: "json_body (requests_get L (contents_url owner repo p) (auth_headers token))
        = Some (JObj d)"
    and decoded: "decode_content L (dict_get d ''content'' (JStr '''')) = Some decoded"
    and marked: "contains ''not found'' decoded \<or> contains ''inaccessible'' decoded"
  from fetch_200[OF ok] body decoded
  have fetched: "fst (fetch_file_content L owner repo p token) = Inr decoded" by simp
  have "readme snap = ''No README.md found.''" if p: "p = ''README.md''"
  proof -
    from grs_snapshot[OF run] obtain rc
      where rc: "fst (fetch_file_content L owner repo ''README.md'' token) = Inr rc"
        and r: "readme snap = (if contains ''not found'' rc \<or> contains ''inaccessible'' rc
                      then ''No README.md found.'' else rc)"
      by blast
    from rc fetched p have "rc = decoded" by simp
    with r marked show ?thesis by simp
  qed
  moreover have "p \<notin> fst ` set (dependencies snap)" if p: "p \<in> set dep_files"
  proof
    assume "p \<in> fst ` set (dependencies snap)"
    then obtain c where c: "(p, c) \<in> set (dependencies snap)" by force
    from deps_membership[OF run] obtain ds
      where deps: "dependencies snap = (if ds = [] then [(''status'', no_dependency_message)] else ds)"
        and mem: "\<forall>n c. (n, c) \<in> set ds \<longleftrightarrow>
          n \<in> set dep_files \<and> fst (fetch_file_content L owner repo n token) = Inr c
          \<and> \<not> contains ''not found'' c \<and> \<not> contains ''inaccessible'' c"
      by blast
    from c deps p status_not_dep_file have "(p, c) \<in> set ds"
      by (cases "ds = []") auto
    with mem fetched have "c = decoded"
      "\<not> contains ''not found'' c \<and> \<not> contains ''inaccessible'' c" by auto
    with marked show False by simp
  qed
  ultimately show "fst (fetch_file_content L owner repo p token) = Inr decoded
       \<and> (p = ''README.md'' \<longrightarrow> readme snap = ''No README.md found.'')
       \<and> (p \<in> set dep_files \<longrightarrow> p \<notin> fst ` set (dependencies snap))"
    using fetched by blast
qed

theorem C9_witness:
  "fst (get_repo_structure github ''octocat'' ''mislabeled'' None)
     = Inr (Some \<lparr>metadata = JObj [], structure = [], readme = ''No README.md found.'',
                  dependencies = [(''status'', no_dependency_message)]\<rparr>, None)
   \<and> status_code (requests_get github (contents_url ''octocat'' ''mislabeled'' ''README.md'')
        (auth_headers None)) = 200
   \<and> decode_content github (JStr ''bm90IGZvdW5k'') = Some ''not found''
   \<and> fst (fetch_file_content github ''octocat'' ''mislabeled'' ''README.md'' None)
       = Inr ''not found''
   \<and> status_code (requests_get github (contents_url ''octocat'' ''mislabeled'' ''requirements.txt'')
        (auth_headers None)) = 200
   \<and> decode_content github (JStr ''aW5hY2Nlc3NpYmxl'') = Some ''inaccessible''
   \<and> fst (fetch_file_content github ''octocat'' ''mislabeled'' ''requirements.txt'' None)
       = Inr ''inaccessible''
   \<and> ''requirements.txt'' \<notin> fst ` set [(''status'', no_dependency_message)]"
proof -
  let ?snap = "\<lparr>metadata = JObj [], structure = [], readme = ''No README.md found.'',
                  dependencies = [(''status'', no_dependency_message)]\<rparr>"
  let ?readme = "requests_get github (contents_url ''octocat'' ''mislabeled'' ''README.md'')
        (auth_headers None)"
  let ?reqs = "requests_get github (contents_url ''octocat'' ''mislabeled'' ''requirements.txt'')
        (auth_headers None)"
  have run: "fst (get_repo_structure github ''octocat'' ''mislabeled'' None)
     = Inr (Some ?snap, None)"
    by code_simp
  have r1: "status_code ?readme = 200"
    and r2: "json_body ?readme
        = Some (JObj [(''name'', JStr ''file''), (''content'', JStr ''bm90IGZvdW5k'')])"
    and q1: "status_code ?reqs = 200"
    and q2: "json_body ?reqs
        = Some (JObj [(''name'', JStr ''file''), (''content'', JStr ''aW5hY2Nlc3NpYmxl'')])"
    by (simp_all add: github_simps)
  have r3: "decode_content github (dict_get [(''name'', JStr ''file''),
        (''content'', JStr ''bm90IGZvdW5k'')] ''content'' (JStr '''')) = Some ''not found''"
    and q3: "decode_content github (dict_get [(''name'', JStr ''file''),
        (''content'', JStr ''aW5hY2Nlc3NpYmxl'')] ''content'' (JStr '''')) = Some ''inaccessible''"
    and r3': "decode_content github (JStr ''bm90IGZvdW5k'') = Some ''not found''"
    and q3': "decode_content github (JStr ''aW5hY2Nlc3NpYmxl'') = Some ''inaccessible''"
    by (simp_all add: decode_content_def github_def dict_get_def)
  have r4: "contains ''not found'' ''not found'' \<or> contains ''inaccessible'' ''not found''"
    and q4: "contains ''not found'' ''inaccessible'' \<or> contains ''inaccessible'' ''inaccessible''"
    by simp_all
  have member: "''requirements.txt'' \<in> set dep_files" by (simp add: dep_files_def)
  from C9_marker_in_content[of github "''octocat''" "''mislabeled''" None ?snap "''README.md''",
      rule_format, OF conjI[OF run conjI[OF r1 conjI[OF r2 conjI[OF r3 r4]]]]]
  have readme: "fst (fetch_file_content github ''octocat'' ''mislabeled'' ''README.md'' None)
       = Inr ''not found''"
    by blast
  from C9_marker_in_content[of github "''octocat''" "''mislabeled''" None ?snap
      "''requirements.txt''", rule_format, OF conjI[OF run conjI[OF q1 conjI[OF q2 conjI[OF q3 q4]]]]]
    member
  have manifest: "fst (fetch_file_content github ''octocat'' ''mislabeled'' ''requirements.txt'' None)
       = Inr ''inaccessible''"
    "''requirements.txt'' \<notin> fst ` set [(''status'', no_dependency_message)]"
    by simp_all
  from run r1 r3' readme q1 q3' manifest show ?thesis by blast
qed

section \<open>C10: the pair that \<open>get_repo_structure\<close> returns\<close>

text \<open>
  Claim C10 does not hold as stated: the tree request of \<open>octocat/flaky\<close> is answered
  200 with a body that is not JSON, and \<open>get_repo_structure\<close> raises \<open>JSONDecodeError\<close>
  from \<open>tree_response.json()\<close> after its second request: it returns no pair.
\<close>

theorem C10_counterexample:
  "status_code (requests_get github (tree_url ''octocat'' ''flaky'' ''main'') (auth_headers None))
     = 200
   \<and> get_repo_structure github ''octocat'' ''flaky'' None
     = (Inl JSONDecodeError,
        [(repo_url ''octocat'' ''flaky'', []),
         (tree_url ''octocat'' ''flaky'' ''main'', [])])"
  by code_simp

text \<open>
  Claim C10, amended. Whenever \<open>get_repo_structure\<close> returns, it returns a pair in which
  exactly one component is \<open>None\<close>: \<open>(None, message)\<close> when the metadata status is not
  200, and \<open>(snapshot, None)\<close> when it is, the snapshot having the four fields
  \<open>metadata\<close>, \<open>structure\<close>, \<open>readme\<close> and \<open>dependencies\<close> (the fields of the record).
  It returns, rather than raises, exactly when the metadata body is a JSON object and, for
  status 200, the file structure can be built from the tree answer and neither the README
  fetch nor a manifest fetch raises.
\<close>

theorem C10_result_shape:
  "(let hdrs = auth_headers token;
        resp = requests_get L (repo_url owner repo) hdrs in
     (\<forall>res. fst (get_repo_structure L owner repo token) = Inr res \<longrightarrow>
        ((\<exists>msg. res = (None, Some msg)) \<and> status_code resp \<noteq> 200)
        \<or> ((\<exists>snap. res = (Some snap, None)) \<and> status_code resp = 200))
   \<and> ((\<exists>res. fst (get_repo_structure L owner repo token) = Inr res) \<longleftrightarrow>
        (\<exists>kv. json_body resp = Some (JObj kv)
           \<and> (status_code resp = 200 \<longrightarrow>
                (\<exists>fs. file_structure (requests_get L
                   (tree_url owner repo (py_str L (dict_get kv ''default_branch'' (JStr ''main''))))
                   hdrs) = Inr fs)
                \<and> (\<forall>p \<in> set (''README.md'' # dep_files).
                     \<exists>c. fst (fetch_file_content L owner repo p token) = Inr c)))))"
proof -
  let ?hdrs = "auth_headers token"
  let ?resp = "requests_get L (repo_url owner repo) ?hdrs"
  let ?tree = "\<lambda>kv. requests_get L
          (tree_url owner repo (py_str L (dict_get kv ''default_branch'' (JStr ''main'')))) ?hdrs"
  let ?run = "get_repo_structure L owner repo token"
  let ?steps = "\<lambda>kv. (\<exists>fs. file_structure (?tree kv) = Inr fs)
      \<and> (\<forall>p \<in> set (''README.md'' # dep_files).
            \<exists>c. fst (fetch_file_content L owner repo p token) = Inr c)"
  have shape: "((\<exists>msg. res = (None, Some msg)) \<and> status_code ?resp \<noteq> 200)
        \<or> ((\<exists>snap. res = (Some snap, None)) \<and> status_code ?resp = 200)"
    if run: "fst ?run = Inr res" for res
  proof (cases "status_code ?resp = 200")
    case True
    from grs_200_steps[OF True run] True show ?thesis by simp
  next
    case False
    from grs_error_path[OF False] run have "\<exists>msg. res = (None, Some msg)"
      by (auto split: option.splits json.splits)
    with False show ?thesis by simp
  qed
  have only_if: "\<exists>kv. json_body ?resp = Some (JObj kv) \<and> (status_code ?resp = 200 \<longrightarrow> ?steps kv)"
    if run: "fst ?run = Inr res" for res
  proof (cases "status_code ?resp = 200")
    case True
    from grs_200_steps[OF True run] obtain snap where res: "res = (Some snap, None)" by blast
    from run res have run': "fst ?run = Inr (Some snap, None)" by simp
    from grs_snapshot[OF run'] obtain kv rc
      where kv: "json_body ?resp = Some (JObj kv)"
        and fs: "file_structure (?tree kv) = Inr (structure snap)"
        and rc: "fst (fetch_file_content L owner repo ''README.md'' token) = Inr rc"
      by blast
    from deps_membership[OF run']
    have "\<forall>n \<in> set dep_files. \<exists>c. fst (fetch_file_content L owner repo n token) = Inr c"
      by blast
    with kv fs rc show ?thesis by auto
  next
    case False
    from grs_error_path[OF False] run have "\<exists>kv. json_body ?resp = Some (JObj kv)"
      by (simp split: option.splits json.splits)
    with False show ?thesis by simp
  qed
  have "if": "\<exists>res. fst ?run = Inr res"
    if kv: "json_body ?resp = Some (JObj kv)" and steps: "status_code ?resp = 200 \<longrightarrow> ?steps kv"
    for kv
  proof (cases "status_code ?resp = 200")
    case True
    with steps obtain fs rc where fs: "file_structure (?tree kv) = Inr fs"
      and rc: "fst (fetch_file_content L owner repo ''README.md'' token) = Inr rc"
      and all: "\<forall>n \<in> set dep_files. \<exists>c. fst (fetch_file_content L owner repo n token) = Inr c"
      by auto
    from loop_returns[OF all] obtain d
      where d: "fst (fetch_dependencies L owner repo token dep_files []) = Inr d" by blast
    from grs_returns[OF True kv fs rc d] show ?thesis by simp
  next
    case False
    from grs_error_path[OF False] kv show ?thesis by simp
  qed
  show ?thesis
    unfolding Let_def
  proof (intro conjI allI impI iffI)
    fix res assume "fst ?run = Inr res"
    then show "((\<exists>msg. res = (None, Some msg)) \<and> status_code ?resp \<noteq> 200)
        \<or> ((\<exists>snap. res = (Some snap, None)) \<and> status_code ?resp = 200)"
      by (rule shape)
  next
    assume "\<exists>res. fst ?run = Inr res"
    then show "\<exists>kv. json_body ?resp = Some (JObj kv) \<and> (status_code ?resp = 200 \<longrightarrow> ?steps kv)"
      using only_if by blast
  next
    assume "\<exists>kv. json_body ?resp = Some (JObj kv) \<and> (status_code ?resp = 200 \<longrightarrow> ?steps kv)"
    then show "\<exists>res. fst ?run = Inr res"
      using "if" by blast
  qed
qed

theorem C10_witness:
  "status_code (requests_get github (repo_url ''octocat'' ''Hello-World'') (auth_headers None)) = 200
   \<and> (\<exists>snap. fst (get_repo_structure github ''octocat'' ''Hello-World'' None)
         = Inr (Some snap, None))
   \<and> status_code (requests_get github (repo_url ''octocat'' ''missing'') (auth_headers None)) = 404
   \<and> (\<exists>msg. fst (get_repo_structure github ''octocat'' ''missing'' None)
         = Inr (None, Some msg))"
proof -
  let ?hello = "requests_get github (repo_url ''octocat'' ''Hello-World'') (auth_headers None)"
  let ?missing = "requests_get github (repo_url ''octocat'' ''missing'') (auth_headers None)"
  let ?kv = "[(''default_branch'', JStr ''master''), (''stargazers_count'', JInt 80)]"
  have h1: "status_code ?hello = 200" and h2: "json_body ?hello = Some (JObj ?kv)"
    by (simp_all add: github_simps)
  have h3: "\<exists>fs. file_structure (requests_get github
      (tree_url ''octocat'' ''Hello-World'' (py_str github (dict_get ?kv ''default_branch''
         (JStr ''main'')))) (auth_headers None)) = Inr fs"
    by (simp add: github_simps py_str_def file_structure_def tree_files_def json_of_def
        get_attr_def tree_paths_def item_path_def as_str_def)
  have h4: "\<forall>p \<in> set (''README.md'' # dep_files).
      \<exists>c. fst (fetch_file_content github ''octocat'' ''Hello-World'' p None) = Inr c"
    by (simp add: dep_files_def fetch_file_content_def io_simps github_simps json_of_def
        get_attr_def decode_content_def)
  have m1: "status_code ?missing = 404"
    and m2: "json_body ?missing = Some (JObj [(''message'', JStr ''Not Found'')])"
    by (simp_all add: github_simps)
  note hello = C10_result_shape[of None github "''octocat''" "''Hello-World''", unfolded Let_def]
  note missing = C10_result_shape[of None github "''octocat''" "''missing''", unfolded Let_def]
  from hello[THEN conjunct2] h2 h3 h4
  obtain res where res: "fst (get_repo_structure github ''octocat'' ''Hello-World'' None) = Inr res"
    by blast
  from hello[THEN conjunct1, rule_format, OF res] h1 res
  have snapshot: "\<exists>snap. fst (get_repo_structure github ''octocat'' ''Hello-World'' None)
         = Inr (Some snap, None)"
    by auto
  from missing[THEN conjunct2] m1 m2
  obtain res' where res': "fst (get_repo_structure github ''octocat'' ''missing'' None) = Inr res'"
    by auto
  from missing[THEN conjunct1, rule_format, OF res'] m1 res'
  have error: "\<exists>msg. fst (get_repo_structure github ''octocat'' ''missing'' None)
         = Inr (None, Some msg)"
    by auto
  from h1 m1 snapshot error show ?thesis by simp
qed

end
